theory Spec2Isabelle
  imports Complex_Main
begin

section \<open>JavaScript numbers\<close>

text \<open>
  The calculator of \<^verbatim>\<open>src/app/page.tsx\<close> computes with JavaScript numbers, that is
  with IEEE-754 binary64 values. A number is modelled as a finite value (a real), one of the
  two infinities, or \<open>NaN\<close>. Every arithmetic operation computes the exact result and
  rounds it to the nearest binary64 value, ties to the even significand, with gradual
  underflow below \<open>2 ^ - 1022\<close> and overflow to an infinity from \<open>2 ^ 1024\<close> on.

  The sign of a zero is not modelled: \<open>+0\<close> and \<open>-0\<close> are both \<open>Num 0\<close>, as
  \<^verbatim>\<open>===\<close> has it. Only a division by zero could tell them apart; it is given as for
  \<open>+0\<close>. The calculator divides by the literals 1000, 100, 9.0, 4.7 and by
  \<^verbatim>\<open>Math.max(carPassengers, 1)\<close>, none of which is zero.

  The type admits every real under \<open>Num\<close>, not only the binary64 values; a statement
  proved for all \<open>Num x\<close> holds for the binary64 inputs in particular, and every result of
  an operation is a binary64 value.
\<close>

subsection \<open>Rounding to binary64\<close>

text \<open>Rounding to the nearest integer, ties to even.\<close>

definition round_half_even :: "real \<Rightarrow> int" where
  "round_half_even y =
     (let f = \<lfloor>y\<rfloor>; d = y - of_int f
      in if d < 1 / 2 then f else if 1 / 2 < d then f + 1 else if even f then f else f + 1)"

text \<open>
  The binary exponent of a real other than 0: \<open>2 ^ expo x \<le> \<bar>x\<bar> < 2 ^ (expo x + 1)\<close>
  (lemmas \<open>expo_bounds\<close>, \<open>expo_eqI\<close>; lemma \<open>expo_step\<close> computes it by halving and
  doubling).
\<close>

definition expo :: "real \<Rightarrow> int" where
  "expo x = \<lfloor>log 2 \<bar>x\<bar>\<rfloor>"

text \<open>
  The spacing of the binary64 values around \<open>x\<close>: 53 significant bits, and the fixed
  spacing \<open>2 ^ - 1074\<close> of the subnormal range.
\<close>

definition ulp :: "real \<Rightarrow> real" where
  "ulp x = 2 powi (max (expo x) (- 1022) - 52)"

definition round_real :: "real \<Rightarrow> real" where
  "round_real x = sgn x * (of_int (round_half_even (\<bar>x\<bar> / ulp x)) * ulp x)"

datatype jsnum = Num real | PInf | NInf | NaN

definition threshold :: real where
  "threshold = 2 ^ 1024"

definition overflow :: "real \<Rightarrow> jsnum" where
  "overflow r =
     (if threshold \<le> r then PInf else if r \<le> - threshold then NInf else Num r)"

definition round64 :: "real \<Rightarrow> jsnum" where
  "round64 x = overflow (round_real x)"

text \<open>
  A decimal literal of the source denotes the binary64 value nearest to it:
  \<^verbatim>\<open>0.192\<close> is \<open>dbl 0.192\<close>. Integer literals below \<open>2 ^ 53\<close> are exact and are
  written \<open>Num 15\<close>.
\<close>

definition dbl :: "real \<Rightarrow> jsnum" where
  "dbl x = round64 x"

subsection \<open>Arithmetic and comparison\<close>

instantiation jsnum :: "{plus, minus, times, inverse, ord}"
begin

fun plus_jsnum :: "jsnum \<Rightarrow> jsnum \<Rightarrow> jsnum" where
  "Num a + Num b = round64 (a + b)"
| "Num a + PInf = PInf"
| "Num a + NInf = NInf"
| "PInf + Num b = PInf"
| "PInf + PInf = PInf"
| "NInf + Num b = NInf"
| "NInf + NInf = NInf"
| "_ + _ = NaN"

fun minus_jsnum :: "jsnum \<Rightarrow> jsnum \<Rightarrow> jsnum" where
  "Num a - Num b = round64 (a - b)"
| "Num a - PInf = NInf"
| "Num a - NInf = PInf"
| "PInf - Num b = PInf"
| "PInf - NInf = PInf"
| "NInf - Num b = NInf"
| "NInf - PInf = NInf"
| "_ - _ = NaN"

fun times_jsnum :: "jsnum \<Rightarrow> jsnum \<Rightarrow> jsnum" where
  "Num a * Num b = round64 (a * b)"
| "Num a * PInf = (if a = 0 then NaN else if 0 < a then PInf else NInf)"
| "Num a * NInf = (if a = 0 then NaN else if 0 < a then NInf else PInf)"
| "PInf * Num b = (if b = 0 then NaN else if 0 < b then PInf else NInf)"
| "NInf * Num b = (if b = 0 then NaN else if 0 < b then NInf else PInf)"
| "PInf * PInf = PInf"
| "PInf * NInf = NInf"
| "NInf * PInf = NInf"
| "NInf * NInf = PInf"
| "_ * _ = NaN"

fun divide_jsnum :: "jsnum \<Rightarrow> jsnum \<Rightarrow> jsnum" where
  "divide_jsnum (Num a) (Num b) =
     (if b = 0 then (if a = 0 then NaN else if 0 < a then PInf else NInf)
      else round64 (a / b))"
| "divide_jsnum (Num a) PInf = Num 0"
| "divide_jsnum (Num a) NInf = Num 0"
| "divide_jsnum PInf (Num b) = (if 0 \<le> b then PInf else NInf)"
| "divide_jsnum NInf (Num b) = (if 0 \<le> b then NInf else PInf)"
| "divide_jsnum _ _ = NaN"

definition inverse_jsnum :: "jsnum \<Rightarrow> jsnum" where
  "inverse_jsnum x = divide (Num 1) x"

text \<open>Every comparison with \<open>NaN\<close> is false.\<close>

fun less_jsnum :: "jsnum \<Rightarrow> jsnum \<Rightarrow> bool" where
  "Num a < Num b = (a < b)"
| "Num a < PInf = True"
| "NInf < Num b = True"
| "NInf < PInf = True"
| "(x::jsnum) < y = False"

fun less_eq_jsnum :: "jsnum \<Rightarrow> jsnum \<Rightarrow> bool" where
  "Num a \<le> Num b = (a \<le> b)"
| "Num a \<le> PInf = True"
| "NInf \<le> Num b = True"
| "NInf \<le> PInf = True"
| "PInf \<le> PInf = True"
| "NInf \<le> NInf = True"
| "(x::jsnum) \<le> y = False"

instance ..

end

text \<open>\<open>Math.min\<close> and \<open>Math.max\<close> return \<open>NaN\<close> as soon as one argument is \<open>NaN\<close>.\<close>

fun Math_min :: "jsnum \<Rightarrow> jsnum \<Rightarrow> jsnum" where
  "Math_min NaN _ = NaN"
| "Math_min _ NaN = NaN"
| "Math_min x y = (if x \<le> y then x else y)"

fun Math_max :: "jsnum \<Rightarrow> jsnum \<Rightarrow> jsnum" where
  "Math_max NaN _ = NaN"
| "Math_max _ NaN = NaN"
| "Math_max x y = (if x \<le> y then y else x)"

section \<open>Property lookup and truthiness\<close>

text \<open>
  The factor tables are object literals indexed by a string that TypeScript only casts
  (\<^verbatim>\<open>as keyof typeof ...\<close>), so at run time the read \<^verbatim>\<open>table[key]\<close> yields
  \<^item> the number stored under an own key,
  \<^item> a function or object inherited from \<^verbatim>\<open>Object.prototype\<close> when the key names one of
    its properties (\<^verbatim>\<open>constructor\<close>, \<^verbatim>\<open>toString\<close>, ...),
  \<^item> \<^verbatim>\<open>undefined\<close> otherwise.
  An inherited value is truthy and converts to \<open>NaN\<close> in arithmetic; \<^verbatim>\<open>undefined\<close>
  is falsy and converts to \<open>NaN\<close> as well.
\<close>

datatype jsval = Number jsnum | Undefined | Inherited

fun ToNumber :: "jsval \<Rightarrow> jsnum" where
  "ToNumber (Number n) = n"
| "ToNumber Undefined = NaN"
| "ToNumber Inherited = NaN"

fun truthy_num :: "jsnum \<Rightarrow> bool" where
  "truthy_num (Num r) = (r \<noteq> 0)"
| "truthy_num PInf = True"
| "truthy_num NInf = True"
| "truthy_num NaN = False"

fun truthy :: "jsval \<Rightarrow> bool" where
  "truthy (Number n) = truthy_num n"
| "truthy Undefined = False"
| "truthy Inherited = True"

text \<open>The operator \<^verbatim>\<open>a || b\<close>.\<close>

definition or_else :: "jsval \<Rightarrow> jsval \<Rightarrow> jsval" where
  "or_else a b = (if truthy a then a else b)"

text \<open>
  The property names of \<^verbatim>\<open>Object.prototype\<close> fixed by the ECMAScript standard (with its
  Annex B); they are part of the language, not of the repository.
\<close>

definition Object_prototype_properties :: "string list" where
  "Object_prototype_properties =
     [''constructor'', ''hasOwnProperty'', ''isPrototypeOf'', ''propertyIsEnumerable'',
      ''toLocaleString'', ''toString'', ''valueOf'', ''__proto__'',
      ''__defineGetter__'', ''__defineSetter__'', ''__lookupGetter__'', ''__lookupSetter__'']"

definition get_prop :: "(string \<times> real) list \<Rightarrow> string \<Rightarrow> jsval" where
  "get_prop obj k =
     (case map_of obj k of
        Some v \<Rightarrow> Number (dbl v)
      | None \<Rightarrow> if k \<in> set Object_prototype_properties then Inherited else Undefined)"

section \<open>Data model\<close>

record Motorcycle =
  owns :: bool
  type :: "string option"
  km :: "jsnum option"

record TransportData =
  carType :: string
  carKm :: jsnum
  carAge :: jsnum
  carPassengers :: jsnum
  publicTransportType :: string
  publicTransportKm :: jsnum
  flightsShortHaul :: jsnum
  flightsMediumHaul :: jsnum
  flightsLongHaul :: jsnum
  motorcycle :: Motorcycle

record EnergyData =
  homeType :: string
  homeSize :: jsnum
  occupants :: jsnum
  electricityKwh :: jsnum
  heatingType :: string
  heatingConsumption :: jsnum
  renewableEnergy :: bool
  renewablePercentage :: "jsnum option"
  insulation :: string

record ShoppingHabits =
  clothes :: jsnum
  electronics :: jsnum
  furniture :: jsnum

record LifestyleData =
  dietType :: string
  meatFrequency :: "jsnum option"
  localFoodPercentage :: jsnum
  wasteRecycling :: bool
  wasteComposting :: bool
  shoppingHabits :: ShoppingHabits
  waterConsumption :: jsnum

text \<open>
  The three fields of \<^verbatim>\<open>FormData\<close> and of the breakdown of a result have the same
  names in the source; the breakdown's fields carry the suffix \<open>_t\<close> (tonnes) here.
\<close>

record FormData =
  transport :: TransportData
  energy :: EnergyData
  lifestyle :: LifestyleData

record Breakdown =
  transport_t :: jsnum
  energy_t :: jsnum
  lifestyle_t :: jsnum

record Comparison =
  percentageFromNational :: jsnum
  percentageFromWorld :: jsnum
  nationalAverage :: jsnum
  worldAverage :: jsnum

record CarbonFootprintResult =
  total :: jsnum
  breakdown :: Breakdown
  comparison :: Comparison

text \<open>The form's initial state, \<^verbatim>\<open>initialFormData\<close>.\<close>

definition initialFormData :: FormData where
  "initialFormData =
     \<lparr>transport =
        \<lparr>carType = ''none'', carKm = Num 0, carAge = Num 0, carPassengers = Num 1,
         publicTransportType = '''', publicTransportKm = Num 0, flightsShortHaul = Num 0,
         flightsMediumHaul = Num 0, flightsLongHaul = Num 0,
         motorcycle = \<lparr>owns = False, type = None, km = None\<rparr>\<rparr>,
      energy =
        \<lparr>homeType = '''', homeSize = Num 0, occupants = Num 1, electricityKwh = Num 0,
         heatingType = '''', heatingConsumption = Num 0, renewableEnergy = False,
         renewablePercentage = None, insulation = ''medium''\<rparr>,
      lifestyle =
        \<lparr>dietType = '''', meatFrequency = None, localFoodPercentage = Num 0,
         wasteRecycling = False, wasteComposting = False,
         shoppingHabits = \<lparr>clothes = Num 50, electronics = Num 50, furniture = Num 50\<rparr>,
         waterConsumption = Num 0\<rparr>\<rparr>"

section \<open>Factor tables\<close>

definition EMISSIONS_FACTORS_car :: "(string \<times> real) list" where
  "EMISSIONS_FACTORS_car =
     [(''electric'', 0.024), (''hybrid'', 0.089), (''petrol'', 0.192), (''diesel'', 0.171),
      (''none'', 0)]"

record Flights =
  shortHaul :: real
  mediumHaul :: real
  longHaul :: real

definition EMISSIONS_FACTORS_flights :: Flights where
  "EMISSIONS_FACTORS_flights = \<lparr>shortHaul = 180, mediumHaul = 400, longHaul = 1800\<rparr>"

definition EMISSIONS_FACTORS_publicTransport :: "(string \<times> real) list" where
  "EMISSIONS_FACTORS_publicTransport =
     [(''bus'', 0.089), (''train'', 0.041), (''tram'', 0.035), (''subway'', 0.033), (''none'', 0)]"

definition EMISSIONS_FACTORS_diet :: "(string \<times> real) list" where
  "EMISSIONS_FACTORS_diet =
     [(''vegan'', 1000), (''vegetarian'', 1500), (''pescatarian'', 1700),
      (''flexitarian'', 2000), (''omnivore'', 2500)]"

definition ENERGY_CONVERSION_FACTORS :: "(string \<times> real) list" where
  "ENERGY_CONVERSION_FACTORS =
     [(''gas'', 10.55), (''oil'', 10.0), (''electric'', 1), (''heatPump'', 1)]"

text \<open>The two tables local to \<^verbatim>\<open>calculateEnergyEmissions\<close>.\<close>

definition heatingEmissionFactors :: "(string \<times> real) list" where
  "heatingEmissionFactors =
     [(''gas'', 0.205), (''oil'', 0.324), (''electric'', 0.0571), (''heatPump'', 0.019)]"

definition insulationFactors :: "(string \<times> real) list" where
  "insulationFactors =
     [(''poor'', 1.3), (''medium'', 1), (''good'', 0.8), (''excellent'', 0.6)]"

section \<open>Sector calculators\<close>

text \<open>
  A string used as a condition is true when it is not empty. Each \<^verbatim>\<open>emissions += e\<close>
  rebinds \<open>emissions\<close>; a skipped \<^verbatim>\<open>if\<close> leaves it unchanged.
\<close>

definition calculateTransportEmissions :: "TransportData \<Rightarrow> jsnum" where
  "calculateTransportEmissions transportData =
     (let emissions = Num 0;
          emissions =
            (if carType transportData \<noteq> '''' \<and> carType transportData \<noteq> ''none'' then
               (let baseEmission = get_prop EMISSIONS_FACTORS_car (carType transportData);
                    ageMultiplier = Num 1 + (Math_min (carAge transportData) (Num 15) * dbl 0.02);
                    passengerDivisor = Math_max (carPassengers transportData) (Num 1)
                in emissions
                     + (carKm transportData * ToNumber baseEmission * ageMultiplier) / passengerDivisor)
             else emissions);
          emissions =
            (if publicTransportType transportData \<noteq> '''' \<and> publicTransportType transportData \<noteq> ''none'' then
               (let ptEmission =
                      get_prop EMISSIONS_FACTORS_publicTransport (publicTransportType transportData)
                in emissions + publicTransportKm transportData * ToNumber ptEmission)
             else emissions);
          emissions = emissions
            + flightsShortHaul transportData * dbl (shortHaul EMISSIONS_FACTORS_flights);
          emissions = emissions
            + flightsMediumHaul transportData * dbl (mediumHaul EMISSIONS_FACTORS_flights);
          emissions = emissions
            + flightsLongHaul transportData * dbl (longHaul EMISSIONS_FACTORS_flights)
      in emissions / Num 1000)"

text \<open>
  The quantity the car block of \<^verbatim>\<open>calculateTransportEmissions\<close> adds to the running
  sum (in kg), for an input on which the block is entered.
\<close>

definition carContribution :: "TransportData \<Rightarrow> jsnum" where
  "carContribution transportData =
     (let baseEmission = get_prop EMISSIONS_FACTORS_car (carType transportData);
          ageMultiplier = Num 1 + (Math_min (carAge transportData) (Num 15) * dbl 0.02);
          passengerDivisor = Math_max (carPassengers transportData) (Num 1)
      in (carKm transportData * ToNumber baseEmission * ageMultiplier) / passengerDivisor)"

text \<open>
  \<^verbatim>\<open>energy.renewableEnergy && energy.renewablePercentage\<close> holds when the flag is set and
  the optional percentage is present, not zero and not \<open>NaN\<close>.
\<close>

definition calculateEnergyEmissions :: "EnergyData \<Rightarrow> jsnum" where
  "calculateEnergyEmissions energyData =
     (let baseElectricityEmission = dbl 0.0571;
          electricityEmissions = (electricityKwh energyData / Num 1000) * baseElectricityEmission;
          electricityEmissions =
            (case renewablePercentage energyData of
               Some p \<Rightarrow>
                 if renewableEnergy energyData \<and> truthy_num p
                 then electricityEmissions * (Num 1 - p / Num 100)
                 else electricityEmissions
             | None \<Rightarrow> electricityEmissions);
          heatingKwh = heatingConsumption energyData *
            ToNumber (or_else (get_prop ENERGY_CONVERSION_FACTORS (heatingType energyData))
                              (Number (Num 1)));
          heatingEmissionFactor =
            or_else (get_prop heatingEmissionFactors (heatingType energyData))
                    (get_prop heatingEmissionFactors ''electric'');
          heatingEmissions = (heatingKwh / Num 1000) * ToNumber heatingEmissionFactor;
          insulationMultiplier =
            or_else (get_prop insulationFactors (insulation energyData)) (Number (Num 1))
      in (electricityEmissions + heatingEmissions) * ToNumber insulationMultiplier)"

definition calculateLifestyleEmissions :: "LifestyleData \<Rightarrow> jsnum" where
  "calculateLifestyleEmissions lifestyleData =
     (let emissions = Num 0;
          dietEmission =
            or_else (get_prop EMISSIONS_FACTORS_diet (dietType lifestyleData))
                    (get_prop EMISSIONS_FACTORS_diet ''omnivore'');
          localFoodAdjustment = Num 1 - (localFoodPercentage lifestyleData * dbl 0.002);
          emissions = emissions + (ToNumber dietEmission * localFoodAdjustment) / Num 1000;
          shoppingEmissions =
            (clothes (shoppingHabits lifestyleData) * dbl 0.1
               + electronics (shoppingHabits lifestyleData) * dbl 0.2
               + furniture (shoppingHabits lifestyleData) * dbl 0.15) * dbl 0.01;
          emissions = emissions + shoppingEmissions;
          emissions = (if wasteRecycling lifestyleData then emissions * dbl 0.9 else emissions);
          emissions = (if wasteComposting lifestyleData then emissions * dbl 0.95 else emissions)
      in emissions)"

section \<open>Aggregator\<close>

definition compareToNationalAverage :: "jsnum \<Rightarrow> Comparison" where
  "compareToNationalAverage totalEmissions =
     (let frenchAverage = dbl 9.0;
          worldAverage = dbl 4.7
      in \<lparr>percentageFromNational = ((totalEmissions - frenchAverage) / frenchAverage) * Num 100,
          percentageFromWorld = ((totalEmissions - worldAverage) / worldAverage) * Num 100,
          nationalAverage = frenchAverage,
          worldAverage = worldAverage\<rparr>)"

text \<open>
  \<^verbatim>\<open>calculateFinalFootprint\<close> reads the component state \<^verbatim>\<open>formData\<close> and sets
  \<^verbatim>\<open>carbonFootprint\<close> and \<^verbatim>\<open>showResults\<close>. The state record holds these three
  pieces of the component state; the wizard's step counters are not touched by the function.
\<close>

record AppState =
  formData :: FormData
  carbonFootprint :: "CarbonFootprintResult option"
  showResults :: bool

text \<open>
  The component starts with \<^verbatim>\<open>useState(initialFormData)\<close>, no result and
  \<^verbatim>\<open>showResults = false\<close>.
\<close>

definition initialAppState :: AppState where
  "initialAppState =
     \<lparr>formData = initialFormData, carbonFootprint = None, showResults = False\<rparr>"

definition calculateFinalFootprint :: "AppState \<Rightarrow> AppState" where
  "calculateFinalFootprint s =
     (let transportEmissions = calculateTransportEmissions (transport (formData s));
          energyEmissions = calculateEnergyEmissions (energy (formData s));
          lifestyleEmissions = calculateLifestyleEmissions (lifestyle (formData s));
          total = transportEmissions + energyEmissions + lifestyleEmissions;
          comparison = compareToNationalAverage total
      in s\<lparr>carbonFootprint :=
             Some \<lparr>total = total,
                   breakdown = \<lparr>transport_t = transportEmissions,
                                energy_t = energyEmissions,
                                lifestyle_t = lifestyleEmissions\<rparr>,
                   comparison = comparison\<rparr>,
           showResults := True\<rparr>)"

section \<open>Recommendation engine\<close>

text \<open>
  An action of the source is an object with a title, an impact and a description. The
  description is fixed text attached to the title and is left out. The source's strings are
  French; they are written here without their accents (\<^verbatim>\<open>Eleve\<close>,
  \<^verbatim>\<open>Modere\<close>, \<^verbatim>\<open>Tres eleve\<close>, \<^verbatim>\<open>Energie\<close>).
\<close>

record Action =
  title :: string
  impact :: string

record Recommendation =
  category :: string
  actions :: "Action list"

text \<open>The eleven action literals of \<^verbatim>\<open>getDetailedRecommendations\<close>, in source order.\<close>

definition action_carKm :: Action where
  "action_carKm = \<lparr>title = ''Reduisez vos deplacements en voiture'', impact = ''Eleve''\<rparr>"

definition action_flightsLongHaul :: Action where
  "action_flightsLongHaul = \<lparr>title = ''Optimisez vos voyages en avion'', impact = ''Modere''\<rparr>"

definition action_carType :: Action where
  "action_carType = \<lparr>title = ''Envisagez un vehicule plus ecologique'', impact = ''Eleve''\<rparr>"

definition action_electricityKwh :: Action where
  "action_electricityKwh =
     \<lparr>title = ''Optimisez votre consommation electrique'', impact = ''Eleve''\<rparr>"

definition action_renewableEnergy :: Action where
  "action_renewableEnergy =
     \<lparr>title = ''Passez aux energies renouvelables'', impact = ''Tres eleve''\<rparr>"

definition action_insulation :: Action where
  "action_insulation =
     \<lparr>title = ''Ameliorez l'isolation de votre logement'', impact = ''Eleve''\<rparr>"

definition action_heatingType :: Action where
  "action_heatingType =
     \<lparr>title = ''Changez votre systeme de chauffage'', impact = ''Tres eleve''\<rparr>"

definition action_dietType :: Action where
  "action_dietType =
     \<lparr>title = ''Reduisez votre consommation de viande'', impact = ''Eleve''\<rparr>"

definition action_localFood :: Action where
  "action_localFood =
     \<lparr>title = ''Privilegiez les produits locaux et de saison'', impact = ''Modere''\<rparr>"

definition action_waste :: Action where
  "action_waste =
     \<lparr>title = ''Ameliorez votre gestion des dechets'', impact = ''Modere''\<rparr>"

definition action_shopping :: Action where
  "action_shopping =
     \<lparr>title = ''Adoptez une consommation plus responsable'', impact = ''Modere''\<rparr>"

text \<open>
  \<^verbatim>\<open>getDetailedRecommendations\<close> reads the component state \<^verbatim>\<open>formData\<close>. Each
  \<^verbatim>\<open>push\<close> appends to the array built so far.
\<close>

definition getDetailedRecommendations :: "AppState \<Rightarrow> Recommendation list" where
  "getDetailedRecommendations s =
     (let recommendations = [];
          transportRecs = [];
          transportRecs =
            (if carKm (transport (formData s)) > Num 15000
             then transportRecs @ [action_carKm] else transportRecs);
          transportRecs =
            (if flightsLongHaul (transport (formData s)) > Num 0
             then transportRecs @ [action_flightsLongHaul] else transportRecs);
          transportRecs =
            (if carType (transport (formData s)) = ''petrol''
                \<or> carType (transport (formData s)) = ''diesel''
             then transportRecs @ [action_carType] else transportRecs);
          recommendations =
            (if length transportRecs > 0
             then recommendations @ [\<lparr>category = ''Transport'', actions = transportRecs\<rparr>]
             else recommendations);
          energyRecs = [];
          energyRecs =
            (if electricityKwh (energy (formData s)) > Num 5000
             then energyRecs @ [action_electricityKwh] else energyRecs);
          energyRecs =
            (if \<not> renewableEnergy (energy (formData s))
             then energyRecs @ [action_renewableEnergy] else energyRecs);
          energyRecs =
            (if insulation (energy (formData s)) = ''poor''
                \<or> insulation (energy (formData s)) = ''medium''
             then energyRecs @ [action_insulation] else energyRecs);
          energyRecs =
            (if heatingType (energy (formData s)) = ''oil''
             then energyRecs @ [action_heatingType] else energyRecs);
          recommendations =
            (if length energyRecs > 0
             then recommendations @ [\<lparr>category = ''Energie'', actions = energyRecs\<rparr>]
             else recommendations);
          lifestyleRecs = [];
          lifestyleRecs =
            (if dietType (lifestyle (formData s)) = ''omnivore''
             then lifestyleRecs @ [action_dietType] else lifestyleRecs);
          lifestyleRecs =
            (if localFoodPercentage (lifestyle (formData s)) < Num 30
             then lifestyleRecs @ [action_localFood] else lifestyleRecs);
          lifestyleRecs =
            (if \<not> wasteRecycling (lifestyle (formData s))
                \<or> \<not> wasteComposting (lifestyle (formData s))
             then lifestyleRecs @ [action_waste] else lifestyleRecs);
          lifestyleRecs =
            (if clothes (shoppingHabits (lifestyle (formData s))) > Num 70
                \<or> electronics (shoppingHabits (lifestyle (formData s))) > Num 70
             then lifestyleRecs @ [action_shopping] else lifestyleRecs);
          recommendations =
            (if length lifestyleRecs > 0
             then recommendations @ [\<lparr>category = ''Mode de vie'', actions = lifestyleRecs\<rparr>]
             else recommendations)
      in recommendations)"

subsection \<open>The engine as the specification words it\<close>

text \<open>
  The specification describes the engine as a threshold table: per sector an ordered list of
  independent predicates, each with its action. All predicates that hold fire, the actions
  keep the table's order, and a sector with no fired predicate is dropped.
\<close>

type_synonym rule = "(FormData \<Rightarrow> bool) \<times> Action"

definition transport_rules :: "rule list" where
  "transport_rules =
     [(\<lambda>fd. carKm (transport fd) > Num 15000, action_carKm),
      (\<lambda>fd. flightsLongHaul (transport fd) > Num 0, action_flightsLongHaul),
      (\<lambda>fd. carType (transport fd) \<in> {''petrol'', ''diesel''}, action_carType)]"

definition energy_rules :: "rule list" where
  "energy_rules =
     [(\<lambda>fd. electricityKwh (energy fd) > Num 5000, action_electricityKwh),
      (\<lambda>fd. \<not> renewableEnergy (energy fd), action_renewableEnergy),
      (\<lambda>fd. insulation (energy fd) \<in> {''poor'', ''medium''}, action_insulation),
      (\<lambda>fd. heatingType (energy fd) = ''oil'', action_heatingType)]"

definition lifestyle_rules :: "rule list" where
  "lifestyle_rules =
     [(\<lambda>fd. dietType (lifestyle fd) = ''omnivore'', action_dietType),
      (\<lambda>fd. localFoodPercentage (lifestyle fd) < Num 30, action_localFood),
      (\<lambda>fd. \<not> wasteRecycling (lifestyle fd) \<or> \<not> wasteComposting (lifestyle fd), action_waste),
      (\<lambda>fd. clothes (shoppingHabits (lifestyle fd)) > Num 70
             \<or> electronics (shoppingHabits (lifestyle fd)) > Num 70, action_shopping)]"

definition fired :: "rule list \<Rightarrow> FormData \<Rightarrow> Action list" where
  "fired rules fd = map snd (filter (\<lambda>r. fst r fd) rules)"

definition threshold_table :: "(string \<times> rule list) list" where
  "threshold_table =
     [(''Transport'', transport_rules), (''Energie'', energy_rules),
      (''Mode de vie'', lifestyle_rules)]"

definition spec_recommendations :: "FormData \<Rightarrow> Recommendation list" where
  "spec_recommendations fd =
     filter (\<lambda>r. actions r \<noteq> [])
       (map (\<lambda>(c, rules). \<lparr>category = c, actions = fired rules fd\<rparr>) threshold_table)"

section \<open>Classes of inputs\<close>

text \<open>
  An input with every numeric field at 0 and every categorical field at \<^verbatim>\<open>none\<close> or at
  the value \<^verbatim>\<open>initialFormData\<close> gives it. The flags are free.
\<close>

definition zero_opt :: "jsnum option \<Rightarrow> bool" where
  "zero_opt x = (x = None \<or> x = Some (Num 0))"

definition all_zero_neutral :: "FormData \<Rightarrow> bool" where
  "all_zero_neutral fd =
     (carType (transport fd) \<in> {''none'', ''''}
      \<and> carKm (transport fd) = Num 0
      \<and> carAge (transport fd) = Num 0
      \<and> carPassengers (transport fd) = Num 0
      \<and> publicTransportType (transport fd) \<in> {''none'', ''''}
      \<and> publicTransportKm (transport fd) = Num 0
      \<and> flightsShortHaul (transport fd) = Num 0
      \<and> flightsMediumHaul (transport fd) = Num 0
      \<and> flightsLongHaul (transport fd) = Num 0
      \<and> zero_opt (km (motorcycle (transport fd)))
      \<and> homeType (energy fd) \<in> {''none'', ''''}
      \<and> homeSize (energy fd) = Num 0
      \<and> occupants (energy fd) = Num 0
      \<and> electricityKwh (energy fd) = Num 0
      \<and> heatingType (energy fd) \<in> {''none'', ''''}
      \<and> heatingConsumption (energy fd) = Num 0
      \<and> zero_opt (renewablePercentage (energy fd))
      \<and> insulation (energy fd) \<in> {''none'', ''medium''}
      \<and> dietType (lifestyle fd) \<in> {''none'', ''''}
      \<and> zero_opt (meatFrequency (lifestyle fd))
      \<and> localFoodPercentage (lifestyle fd) = Num 0
      \<and> clothes (shoppingHabits (lifestyle fd)) = Num 0
      \<and> electronics (shoppingHabits (lifestyle fd)) = Num 0
      \<and> furniture (shoppingHabits (lifestyle fd)) = Num 0
      \<and> waterConsumption (lifestyle fd) = Num 0)"

text \<open>The input with every number at 0 and every other field as in the initial form.\<close>

definition zeroFormData :: FormData where
  "zeroFormData =
     initialFormData
       \<lparr>transport := (transport initialFormData)\<lparr>carPassengers := Num 0\<rparr>,
        energy := (energy initialFormData)\<lparr>occupants := Num 0\<rparr>,
        lifestyle := (lifestyle initialFormData)
          \<lparr>shoppingHabits := \<lparr>clothes = Num 0, electronics = Num 0, furniture = Num 0\<rparr>\<rparr>\<rparr>"

text \<open>
  Two inputs differ only in the fields no formula reads (motorcycle, home type, home size,
  occupants, meat frequency, water consumption) when they are equal once these fields are
  overwritten with fixed values.
\<close>

definition clear_unused :: "FormData \<Rightarrow> FormData" where
  "clear_unused fd =
     fd\<lparr>transport := (transport fd)\<lparr>motorcycle := \<lparr>owns = False, type = None, km = None\<rparr>\<rparr>,
        energy := (energy fd)\<lparr>homeType := '''', homeSize := Num 0, occupants := Num 0\<rparr>,
        lifestyle := (lifestyle fd)\<lparr>meatFrequency := None, waterConsumption := Num 0\<rparr>\<rparr>"

definition differ_only_in_unused :: "FormData \<Rightarrow> FormData \<Rightarrow> bool" where
  "differ_only_in_unused fd fd' = (clear_unused fd = clear_unused fd')"


definition scenario4 :: AppState where
  "scenario4 = initialAppState
     \<lparr>formData := initialFormData
        \<lparr>transport := (transport initialFormData)\<lparr>carType := ''petrol'', carKm := Num 20000\<rparr>\<rparr>\<rparr>"

definition unusedVariant :: AppState where
  "unusedVariant = initialAppState
     \<lparr>formData := initialFormData
        \<lparr>transport := (transport initialFormData)
           \<lparr>motorcycle := \<lparr>owns = True, type = Some ''scooter'', km = Some (Num 3000)\<rparr>\<rparr>,
         energy := (energy initialFormData)
           \<lparr>homeType := ''house'', homeSize := Num 120, occupants := Num 4\<rparr>,
         lifestyle := (lifestyle initialFormData)
           \<lparr>meatFrequency := Some (Num 3), waterConsumption := Num 150\<rparr>\<rparr>\<rparr>"

definition negativeFlights :: AppState where
  "negativeFlights = initialAppState
     \<lparr>formData := initialFormData
        \<lparr>transport := (transport initialFormData)\<lparr>flightsLongHaul := Num (- 10)\<rparr>\<rparr>\<rparr>"

text \<open>
  The initial lifestyle form with the clothes and electronics sliders moved to 0 (furniture
  stays at its initial 50).
\<close>

definition slidersAtZero :: LifestyleData where
  "slidersAtZero =
     (lifestyle initialFormData)
       \<lparr>shoppingHabits := \<lparr>clothes = Num 0, electronics = Num 0, furniture = Num 50\<rparr>\<rparr>"

section \<open>Facts about rounding\<close>

subsection \<open>The exponent\<close>

lemma powr_powi: "2 powr real_of_int k = 2 powi k"
  by (simp add: powr_real_of_int')

lemma powr_powi_Suc: "2 powr (real_of_int k + 1) = 2 powi (k + 1)"
  using powr_powi [of "k + 1"] by simp

lemma expo_bounds:
  assumes "x \<noteq> 0"
  shows "2 powi expo x \<le> \<bar>x\<bar>" and "\<bar>x\<bar> < 2 powi (expo x + 1)"
proof -
  have pos: "0 < \<bar>x\<bar>" using assms by simp
  have "real_of_int (expo x) \<le> log 2 \<bar>x\<bar>"
    by (simp add: expo_def)
  then have "2 powr real_of_int (expo x) \<le> \<bar>x\<bar>"
    using pos by (simp add: le_log_iff)
  then show "2 powi expo x \<le> \<bar>x\<bar>"
    by (simp add: powr_real_of_int')
  have "log 2 \<bar>x\<bar> < real_of_int (expo x + 1)"
    by (simp add: expo_def)
  then have "\<bar>x\<bar> < 2 powr real_of_int (expo x + 1)"
    using pos by (simp add: log_less_iff)
  then show "\<bar>x\<bar> < 2 powi (expo x + 1)"
    by (simp add: powr_powi_Suc)
qed

lemma expo_eqI:
  assumes "2 powi e \<le> \<bar>x\<bar>" and "\<bar>x\<bar> < 2 powi (e + 1)"
  shows "expo x = e"
proof -
  have "(0::real) < 2 powi e"
    by simp
  with assms(1) have pos: "0 < \<bar>x\<bar>"
    by linarith
  have "2 powr real_of_int e \<le> \<bar>x\<bar>"
    using assms(1) by (simp add: powr_real_of_int')
  then have 1: "real_of_int e \<le> log 2 \<bar>x\<bar>"
    using pos by (simp add: le_log_iff)
  have "\<bar>x\<bar> < 2 powr (real_of_int e + 1)"
    using assms(2) by (simp add: powr_powi_Suc)
  then have 2: "log 2 \<bar>x\<bar> < real_of_int e + 1"
    using pos by (simp add: log_less_iff)
  from 1 2 show ?thesis
    unfolding expo_def by (intro floor_unique) simp_all
qed

lemma expo_step:
  assumes "x \<noteq> 0"
  shows "expo x = (if \<bar>x\<bar> < 1 then expo (2 * x) - 1
                   else if 2 \<le> \<bar>x\<bar> then expo (x / 2) + 1 else 0)"
proof -
  have a: "expo x = expo (2 * x) - 1"
  proof (rule expo_eqI)
    have "2 * x \<noteq> 0" using assms by simp
    from expo_bounds [OF this]
    have "2 powi expo (2 * x) \<le> 2 * \<bar>x\<bar>" "2 * \<bar>x\<bar> < 2 powi (expo (2 * x) + 1)"
      by (simp_all add: abs_mult)
    then show "2 powi (expo (2 * x) - 1) \<le> \<bar>x\<bar>" "\<bar>x\<bar> < 2 powi (expo (2 * x) - 1 + 1)"
      by (simp_all add: power_int_diff power_int_add)
  qed
  have b: "expo x = expo (x / 2) + 1"
  proof (rule expo_eqI)
    have "x / 2 \<noteq> 0" using assms by simp
    from expo_bounds [OF this]
    have "2 powi expo (x / 2) \<le> \<bar>x\<bar> / 2" "\<bar>x\<bar> / 2 < 2 powi (expo (x / 2) + 1)"
      by simp_all
    then show "2 powi (expo (x / 2) + 1) \<le> \<bar>x\<bar>" "\<bar>x\<bar> < 2 powi (expo (x / 2) + 1 + 1)"
      by (simp_all add: power_int_add)
  qed
  have c: "expo x = 0" if "1 \<le> \<bar>x\<bar>" "\<bar>x\<bar> < 2"
    by (rule expo_eqI) (use that in simp_all)
  show ?thesis
    using a b c by auto
qed

subsection \<open>Rounding is monotone\<close>

lemma round_half_even_bounds:
  "\<lfloor>y\<rfloor> \<le> round_half_even y" "round_half_even y \<le> \<lfloor>y\<rfloor> + 1"
  by (simp_all add: round_half_even_def Let_def)

lemma round_half_even_of_int [simp]: "round_half_even (of_int n) = n"
  by (simp add: round_half_even_def)

lemma round_half_even_numeral [simp]: "round_half_even (numeral n) = numeral n"
  using round_half_even_of_int [of "numeral n"] by simp

lemma round_half_even_mono:
  assumes "y \<le> z"
  shows "round_half_even y \<le> round_half_even z"
proof (cases "\<lfloor>y\<rfloor> = \<lfloor>z\<rfloor>")
  case True
  with assms show ?thesis
    by (auto simp add: round_half_even_def Let_def)
next
  case False
  with assms have "\<lfloor>y\<rfloor> + 1 \<le> \<lfloor>z\<rfloor>"
    using floor_mono [of y z] by linarith
  with round_half_even_bounds [of y] round_half_even_bounds [of z] show ?thesis
    by linarith
qed

lemma expo_mono:
  assumes "0 < x" and "x \<le> y"
  shows "expo x \<le> expo y"
  unfolding expo_def using assms by (intro floor_mono) simp

lemma ulp_pos [simp]: "0 < ulp x"
  by (simp add: ulp_def)

lemma ulp_nonneg [simp]: "0 \<le> ulp x"
  by (simp add: ulp_def)

lemma ulp_mono:
  assumes "0 < x" and "x \<le> y"
  shows "ulp x \<le> ulp y"
  unfolding ulp_def using expo_mono [OF assms] by (intro power_int_increasing) simp_all

text \<open>Rounding of a positive real stays inside the closure of its binade.\<close>

lemma round_real_upper:
  assumes "0 < x"
  shows "round_real x \<le> 2 powi (max (expo x) (- 1022) + 1)"
proof -
  let ?E = "max (expo x) (- 1022)"
  have x: "x < 2 powi (expo x + 1)"
    using expo_bounds(2) [of x] assms by simp
  have "2 powi (expo x + 1) \<le> (2::real) powi (?E + 1)"
    by (intro power_int_increasing) simp_all
  with x have "x < 2 powi (?E + 1)" by simp
  also have "(2::real) powi (?E + 1) = 2 powi 53 * ulp x"
    by (simp add: ulp_def power_int_add power_int_diff)
  finally have "x / ulp x < 2 powi 53"
    by (simp add: pos_divide_less_eq)
  then have "x / ulp x \<le> of_int (2 ^ 53)"
    by simp
  from round_half_even_mono [OF this]
  have "round_half_even (x / ulp x) \<le> 2 ^ 53"
    by simp
  then have "real_of_int (round_half_even (x / ulp x)) \<le> 2 powi 53"
    by (metis of_int_le_iff of_int_numeral of_int_power power_int_numeral)
  then have "real_of_int (round_half_even (x / ulp x)) * ulp x \<le> 2 powi 53 * ulp x"
    by (simp add: mult_right_mono)
  also have "2 powi 53 * ulp x = 2 powi (?E + 1)"
    by (simp add: ulp_def power_int_add power_int_diff)
  finally show ?thesis
    using assms by (simp add: round_real_def)
qed

lemma round_real_lower:
  assumes "0 < x" and "- 1022 \<le> expo x"
  shows "2 powi expo x \<le> round_real x"
proof -
  have u: "ulp x = 2 powi (expo x - 52)"
    using assms(2) by (simp add: ulp_def max_def)
  have "2 powi expo x \<le> x"
    using expo_bounds(1) [of x] assms by simp
  moreover have "(2::real) powi expo x = 2 powi 52 * ulp x"
    by (simp add: u power_int_diff)
  ultimately have "of_int (2 ^ 52) \<le> x / ulp x"
    by (simp add: pos_le_divide_eq)
  from round_half_even_mono [OF this]
  have "2 ^ 52 \<le> round_half_even (x / ulp x)"
    by simp
  then have "2 powi 52 \<le> real_of_int (round_half_even (x / ulp x))"
    by (metis of_int_le_iff of_int_numeral of_int_power power_int_numeral)
  then have "2 powi 52 * ulp x \<le> real_of_int (round_half_even (x / ulp x)) * ulp x"
    by (simp add: mult_right_mono)
  also have "2 powi 52 * ulp x = 2 powi expo x"
    by (simp add: u power_int_diff)
  finally show ?thesis
    using assms by (simp add: round_real_def)
qed

lemma round_real_nonneg:
  assumes "0 \<le> x"
  shows "0 \<le> round_real x"
proof -
  have "0 \<le> \<bar>x\<bar> / ulp x" by simp
  then have "0 \<le> \<lfloor>\<bar>x\<bar> / ulp x\<rfloor>" by simp
  with round_half_even_bounds(1) [of "\<bar>x\<bar> / ulp x"]
  have "0 \<le> round_half_even (\<bar>x\<bar> / ulp x)" by linarith
  with assms show ?thesis
    by (simp add: round_real_def sgn_if)
qed

lemma round_real_mono_pos:
  assumes "0 < x" and "x \<le> y"
  shows "round_real x \<le> round_real y"
proof (cases "ulp x = ulp y")
  case True
  have "x / ulp y \<le> y / ulp y"
    using assms(2) by (simp add: divide_right_mono)
  from round_half_even_mono [OF this]
  have "real_of_int (round_half_even (x / ulp y)) * ulp y
      \<le> real_of_int (round_half_even (y / ulp y)) * ulp y"
    by (simp add: mult_right_mono)
  with assms True show ?thesis
    by (simp add: round_real_def)
next
  case False
  let ?Ex = "max (expo x) (- 1022)" and ?Ey = "max (expo y) (- 1022)"
  have y: "0 < y" using assms by simp
  have le: "?Ex \<le> ?Ey"
    using expo_mono [OF assms] by simp
  have "?Ex \<noteq> ?Ey"
    using False by (auto simp add: ulp_def)
  with le have lt: "?Ex + 1 \<le> ?Ey" by simp
  then have ey: "?Ey = expo y" "- 1022 \<le> expo y"
    by (simp_all add: max_def split: if_splits)
  have "round_real x \<le> 2 powi (?Ex + 1)"
    by (rule round_real_upper [OF assms(1)])
  also have "\<dots> \<le> 2 powi ?Ey"
    using lt by (intro power_int_increasing) simp_all
  also have "\<dots> = 2 powi expo y"
    using ey by simp
  also have "\<dots> \<le> round_real y"
    by (rule round_real_lower [OF y ey(2)])
  finally show ?thesis .
qed

lemma expo_minus [simp]: "expo (- x) = expo x"
  by (simp add: expo_def)

lemma ulp_minus [simp]: "ulp (- x) = ulp x"
  by (simp add: ulp_def)

lemma round_real_minus: "round_real (- x) = - round_real x"
  by (simp add: round_real_def sgn_minus)

lemma round_real_zero [simp]: "round_real 0 = 0"
  by (simp add: round_real_def)

lemma round_real_mono:
  assumes "x \<le> y"
  shows "round_real x \<le> round_real y"
proof -
  consider "0 < x" | "x \<le> 0" "0 \<le> y" | "y < 0" by linarith
  then show ?thesis
  proof cases
    case 1
    then show ?thesis using assms by (rule round_real_mono_pos)
  next
    case 2
    have "round_real x \<le> 0"
      using round_real_nonneg [of "- x"] 2(1) by (simp add: round_real_minus)
    also have "0 \<le> round_real y"
      using 2(2) by (rule round_real_nonneg)
    finally show ?thesis .
  next
    case 3
    have "round_real (- y) \<le> round_real (- x)"
      using 3 assms by (intro round_real_mono_pos) simp_all
    then show ?thesis
      by (simp add: round_real_minus)
  qed
qed

subsection \<open>Order and arithmetic on numbers\<close>

lemma threshold_pos: "0 < threshold"
  by (simp add: threshold_def)

lemma round64_not_NaN [simp]: "round64 x \<noteq> NaN"
  by (simp add: round64_def overflow_def)

lemma overflow_mono: "r \<le> s \<Longrightarrow> overflow r \<le> overflow s"
  using threshold_pos unfolding overflow_def by auto

lemma round64_mono: "x \<le> y \<Longrightarrow> round64 x \<le> round64 y"
  unfolding round64_def by (intro overflow_mono round_real_mono)

lemma round64_zero [simp]: "round64 0 = Num 0"
  using threshold_pos by (simp add: round64_def overflow_def)

lemma le_PInf [simp]: "x \<noteq> NaN \<Longrightarrow> x \<le> PInf"
  by (cases x) simp_all

lemma NInf_le [simp]: "x \<noteq> NaN \<Longrightarrow> NInf \<le> x"
  by (cases x) simp_all

lemma le_refl_js [simp]: "x \<noteq> NaN \<Longrightarrow> x \<le> x"
  by (cases x) simp_all


lemma le_trans_js: "x \<le> y \<Longrightarrow> y \<le> z \<Longrightarrow> x \<le> (z::jsnum)"
  by (cases x; cases y; cases z) simp_all

lemma Num_le_cases:
  assumes "Num a \<le> u"
  obtains b where "u = Num b" "a \<le> b" | "u = PInf"
  using assms by (cases u) simp_all

lemma le_Num_cases:
  assumes "u \<le> Num b"
  obtains a where "u = Num a" "a \<le> b" | "u = NInf"
  using assms by (cases u) simp_all

lemma between_Num:
  assumes "Num a \<le> u" and "u \<le> Num b"
  obtains c where "u = Num c" "a \<le> c" "c \<le> b"
  using assms by (cases u) simp_all

lemma mul_right_mono_js:
  assumes "u \<le> u'" and "0 < c"
  shows "u * Num c \<le> u' * Num c"
proof -
  have r: "x \<le> y \<Longrightarrow> round64 (x * c) \<le> round64 (y * c)" for x y
    using assms(2) by (intro round64_mono mult_right_mono) simp_all
  show ?thesis
    using assms by (cases u; cases u') (simp_all add: r)
qed

lemma mul_left_mono_js:
  assumes "Num 0 \<le> u" and "0 < c" and "c \<le> c'"
  shows "u * Num c \<le> u * Num c'"
proof -
  have r: "0 \<le> x \<Longrightarrow> round64 (x * c) \<le> round64 (x * c')" for x
    using assms(3) by (intro round64_mono mult_left_mono) simp_all
  show ?thesis
    using assms by (cases u) (simp_all add: r)
qed

lemma div_right_mono_js:
  assumes "u \<le> u'" and "0 < c"
  shows "u / Num c \<le> u' / Num c"
proof -
  have r: "x \<le> y \<Longrightarrow> round64 (x / c) \<le> round64 (y / c)" for x y
    using assms(2) by (intro round64_mono divide_right_mono) simp_all
  show ?thesis
    using assms by (cases u; cases u') (simp_all add: r)
qed


lemma add_mono_js:
  assumes "u \<le> u'" and "v \<le> v'" and "u \<noteq> NInf" and "v \<noteq> NInf"
  shows "u + v \<le> u' + v'"
proof -
  have r: "x \<le> x' \<Longrightarrow> y \<le> y' \<Longrightarrow> round64 (x + y) \<le> round64 (x' + y')" for x x' y y'
    by (intro round64_mono add_mono)
  show ?thesis
    using assms by (cases u; cases u'; cases v; cases v') (simp_all add: r)
qed

lemma sub_mono_js:
  assumes "x \<le> x'" and "y' \<le> y"
  shows "Num x - Num y \<le> Num x' - Num y'"
  using assms by (simp add: round64_mono)



text \<open>
  Evaluation of a rounding at a numeral: unfold the definitions and compute the exponent
  step by step.
\<close>

lemmas round64_eval =
  dbl_def round64_def overflow_def threshold_def round_real_def ulp_def expo_step
  round_half_even_def Let_def

section \<open>Basic facts\<close>

lemma plus_NaN_right [simp]: "x + NaN = NaN"
  by (cases x) simp_all

lemma minus_NaN_right [simp]: "x - NaN = NaN"
  by (cases x) simp_all

lemma times_NaN_right [simp]: "x * NaN = NaN"
  by (cases x) simp_all

lemma divide_NaN_right [simp]: "x / NaN = NaN"
  by (cases x) simp_all

lemma plus_NaN_left [simp]: "NaN + x = NaN"
  by (cases x) simp_all

lemma times_NaN_left [simp]: "NaN * x = NaN"
  by (cases x) simp_all

lemma divide_NaN_left [simp]: "NaN / x = NaN"
  by (cases x) simp_all

lemma dbl_between:
  assumes "a \<le> x" and "x \<le> b" and "dbl a = Num a" and "dbl b = Num b"
  obtains r where "dbl x = Num r" "a \<le> r" "r \<le> b"
proof -
  have "Num a \<le> dbl x" "dbl x \<le> Num b"
    using round64_mono [OF assms(1)] round64_mono [OF assms(2)] assms(3,4)
    by (simp_all add: dbl_def)
  then show ?thesis
    by (rule between_Num) (rule that)
qed

lemma dbl_integers:
  "dbl 0 = Num 0" "dbl 1 = Num 1" "dbl 180 = Num 180" "dbl 400 = Num 400"
  "dbl 1800 = Num 1800" "dbl 1000 = Num 1000" "dbl 1500 = Num 1500" "dbl 1700 = Num 1700"
  "dbl 2000 = Num 2000" "dbl 2500 = Num 2500" "dbl 9.0 = Num 9" "dbl 10.0 = Num 10"
  by (simp_all add: round64_eval)


lemma dbl_large: "dbl 1048576 = Num 1048576"
  by (simp add: round64_eval)

lemma dbl_finite:
  assumes "0 \<le> x" and "x \<le> 1048576"
  obtains r where "dbl x = Num r" "0 \<le> r"
  using dbl_between [OF assms dbl_integers(1) dbl_large] by blast

lemma zero_times_dbl [simp]:
  assumes "0 \<le> x" and "x \<le> 1048576"
  shows "Num 0 * dbl x = Num 0"
  using dbl_finite [OF assms] by (metis mult_zero_left round64_zero times_jsnum.simps(1))

subsection \<open>More order facts\<close>

lemma mult_commute_js: "x * y = y * (x::jsnum)"
  by (cases x; cases y) (simp_all add: mult.commute)

lemma mul_left_fixed_mono_js:
  assumes "u \<le> u'" and "0 < c"
  shows "Num c * u \<le> Num c * u'"
  using mul_right_mono_js [OF assms] by (simp add: mult_commute_js)

lemma mul_factor_mono_js:
  assumes "Num 0 \<le> u" and "0 < c" and "c \<le> c'"
  shows "Num c * u \<le> Num c' * u"
  using mul_left_mono_js [OF assms] by (simp add: mult_commute_js)

lemma sub_antimono_js:
  assumes "v \<le> v'"
  shows "Num a - v' \<le> Num a - v"
  using assms by (cases v; cases v') (simp_all add: round64_mono)

lemma add_fixed_mono_js:
  assumes "v \<le> v'"
  shows "Num a + v \<le> Num a + v'"
  using assms by (cases v; cases v') (simp_all add: round64_mono)

lemma less_le_trans_js: "x < y \<Longrightarrow> y \<le> z \<Longrightarrow> x < (z::jsnum)"
  by (cases x; cases y; cases z) simp_all

lemma Num_le_not_NInf: "Num a \<le> u \<Longrightarrow> u \<noteq> NInf"
  by (cases u) simp_all

lemma nonneg_add:
  assumes "Num 0 \<le> u" and "Num 0 \<le> v"
  shows "Num 0 \<le> u + v"
  using add_mono_js [OF assms] by simp

lemma nonneg_mul:
  assumes "Num 0 \<le> u" and "0 < c"
  shows "Num 0 \<le> u * Num c"
  using mul_right_mono_js [OF assms] by simp



lemma dbl_tiny: "dbl (1 / 1048576) = Num (1 / 1048576)"
  by (simp add: round64_eval)

lemma dbl_positive:
  assumes "1 / 1048576 \<le> x" and "x \<le> 1048576"
  obtains r where "dbl x = Num r" "0 < r"
proof -
  from dbl_between [OF assms dbl_tiny dbl_large] obtain r
    where "dbl x = Num r" "1 / 1048576 \<le> r" "r \<le> 1048576" .
  then show ?thesis
    by (intro that [of r]) simp_all
qed

lemma nonneg_mul_dbl:
  assumes "Num 0 \<le> u" and "1 / 1048576 \<le> x" and "x \<le> 1048576"
  shows "Num 0 \<le> u * dbl x"
proof -
  from dbl_positive [OF assms(2,3)] obtain r where "dbl x = Num r" "0 < r" .
  then show ?thesis
    using nonneg_mul [OF assms(1)] by simp
qed

lemma mul_dbl_mono:
  assumes "u \<le> u'" and "1 / 1048576 \<le> x" and "x \<le> 1048576"
  shows "u * dbl x \<le> u' * dbl x"
proof -
  from dbl_positive [OF assms(2,3)] obtain r where "dbl x = Num r" "0 < r" .
  then show ?thesis
    using mul_right_mono_js [OF assms(1)] by simp
qed

subsection \<open>The age multiplier\<close>




subsection \<open>Lookups at the keys used below\<close>

lemma car_petrol: "get_prop EMISSIONS_FACTORS_car ''petrol'' = Number (dbl 0.192)"
  by (simp add: get_prop_def EMISSIONS_FACTORS_car_def)









lemma conversion_gas: "get_prop ENERGY_CONVERSION_FACTORS ''gas'' = Number (dbl 10.55)"
  by (simp add: get_prop_def ENERGY_CONVERSION_FACTORS_def)

lemma conversion_none: "get_prop ENERGY_CONVERSION_FACTORS ''none'' = Undefined"
  by (simp add: get_prop_def ENERGY_CONVERSION_FACTORS_def Object_prototype_properties_def)

lemma conversion_empty: "get_prop ENERGY_CONVERSION_FACTORS '''' = Undefined"
  by (simp add: get_prop_def ENERGY_CONVERSION_FACTORS_def Object_prototype_properties_def)

lemma heating_gas: "get_prop heatingEmissionFactors ''gas'' = Number (dbl 0.205)"
  by (simp add: get_prop_def heatingEmissionFactors_def)

lemma heating_none: "get_prop heatingEmissionFactors ''none'' = Undefined"
  by (simp add: get_prop_def heatingEmissionFactors_def Object_prototype_properties_def)

lemma heating_empty: "get_prop heatingEmissionFactors '''' = Undefined"
  by (simp add: get_prop_def heatingEmissionFactors_def Object_prototype_properties_def)

lemma heating_electric: "get_prop heatingEmissionFactors ''electric'' = Number (dbl 0.0571)"
  by (simp add: get_prop_def heatingEmissionFactors_def)

lemma insulation_none: "get_prop insulationFactors ''none'' = Undefined"
  by (simp add: get_prop_def insulationFactors_def Object_prototype_properties_def)

lemma insulation_medium: "get_prop insulationFactors ''medium'' = Number (dbl 1)"
  by (simp add: get_prop_def insulationFactors_def)

lemma diet_none: "get_prop EMISSIONS_FACTORS_diet ''none'' = Undefined"
  by (simp add: get_prop_def EMISSIONS_FACTORS_diet_def Object_prototype_properties_def)

lemma diet_empty: "get_prop EMISSIONS_FACTORS_diet '''' = Undefined"
  by (simp add: get_prop_def EMISSIONS_FACTORS_diet_def Object_prototype_properties_def)

lemma diet_omnivore: "get_prop EMISSIONS_FACTORS_diet ''omnivore'' = Number (dbl 2500)"
  by (simp add: get_prop_def EMISSIONS_FACTORS_diet_def)

lemma diet_constructor: "get_prop EMISSIONS_FACTORS_diet ''constructor'' = Inherited"
  by (simp add: get_prop_def EMISSIONS_FACTORS_diet_def Object_prototype_properties_def)

subsection \<open>The calculators on an input of zeros\<close>

lemma transport_zero:
  assumes "carType t = ''none'' \<or> carType t = ''''"
    and "publicTransportType t = ''none'' \<or> publicTransportType t = ''''"
    and "flightsShortHaul t = Num 0"
    and "flightsMediumHaul t = Num 0" and "flightsLongHaul t = Num 0"
  shows "calculateTransportEmissions t = Num 0"
proof -
  have car: "\<not> (carType t \<noteq> '''' \<and> carType t \<noteq> ''none'')"
    using assms(1) by auto
  have pt: "\<not> (publicTransportType t \<noteq> '''' \<and> publicTransportType t \<noteq> ''none'')"
    using assms(2) by auto
  show ?thesis
    unfolding calculateTransportEmissions_def Let_def if_not_P [OF car] if_not_P [OF pt]
      assms(3-5)
    by (simp add: EMISSIONS_FACTORS_flights_def dbl_integers)
qed


lemma energy_zero:
  assumes "electricityKwh e = Num 0" and "heatingConsumption e = Num 0"
    and "heatingType e = ''none'' \<or> heatingType e = ''''"
    and "insulation e = ''none'' \<or> insulation e = ''medium''"
    and "zero_opt (renewablePercentage e)"
  shows "calculateEnergyEmissions e = Num 0"
proof -
  have el: "(case renewablePercentage e of
               Some p \<Rightarrow>
                 if renewableEnergy e \<and> truthy_num p
                 then (Num 0 / Num 1000) * dbl 0.0571 * (Num 1 - p / Num 100)
                 else (Num 0 / Num 1000) * dbl 0.0571
             | None \<Rightarrow> (Num 0 / Num 1000) * dbl 0.0571) = Num 0"
    using assms(5) by (auto simp add: zero_opt_def)
  have conv: "ToNumber (or_else (get_prop ENERGY_CONVERSION_FACTORS (heatingType e))
                              (Number (Num 1))) = Num 1"
    using assms(3) by (auto simp add: or_else_def conversion_none conversion_empty)
  have fac: "ToNumber (or_else (get_prop heatingEmissionFactors (heatingType e))
                    (get_prop heatingEmissionFactors ''electric'')) = dbl 0.0571"
    using assms(3) by (auto simp add: or_else_def heating_none heating_empty heating_electric)
  have ins: "ToNumber (or_else (get_prop insulationFactors (insulation e)) (Number (Num 1)))
      = Num 1"
    using assms(4)
    by (auto simp add: or_else_def insulation_none insulation_medium dbl_integers)
  show ?thesis
    unfolding calculateEnergyEmissions_def Let_def assms(1,2) el conv fac ins
    by simp
qed

lemma lifestyle_default:
  assumes "dietType l = ''none'' \<or> dietType l = ''''" and "localFoodPercentage l = Num 0"
    and "clothes (shoppingHabits l) = Num 0" and "electronics (shoppingHabits l) = Num 0"
    and "furniture (shoppingHabits l) = Num 0"
  shows "calculateLifestyleEmissions l =
     (if wasteRecycling l
      then (if wasteComposting l then dbl 2.1374999999999997 else Num 2.25)
      else (if wasteComposting l then Num 2.375 else Num 2.5))"
proof -
  have d: "ToNumber (or_else (get_prop EMISSIONS_FACTORS_diet (dietType l))
                    (get_prop EMISSIONS_FACTORS_diet ''omnivore'')) = Num 2500"
    using assms(1)
    by (auto simp add: or_else_def diet_none diet_empty diet_omnivore dbl_integers)
  have base: "Num 0 + (Num 2500 * (Num 1 - (Num 0 * dbl 0.002))) / Num 1000
      + (Num 0 * dbl 0.1 + Num 0 * dbl 0.2 + Num 0 * dbl 0.15) * dbl 0.01 = Num 2.5"
    by (simp add: round64_eval)
  show ?thesis
    unfolding calculateLifestyleEmissions_def Let_def assms(2-5) d base
    by (simp add: round64_eval)
qed

lemma all_zero_neutral_zeroFormData: "all_zero_neutral zeroFormData"
  by (simp add: all_zero_neutral_def zeroFormData_def initialFormData_def zero_opt_def)

lemma formData_upd: "formData (initialAppState\<lparr>formData := fd\<rparr>) = fd"
  by simp

section \<open>Concrete scenarios\<close>

text \<open>
  Claim C5. For the transport input with a petrol car, 20000 km a year, a car aged 5 years and
  one passenger, no public transport and no flights, the transport calculator returns
  (20000 * 0.192 * (1 + 5 * 0.02)) / 1 / 1000, which in binary64 arithmetic is the number
  4.224 itself, whatever the motorcycle fields.
\<close>

theorem C5_transport_scenario:
  "calculateTransportEmissions
     \<lparr>carType = ''petrol'', carKm = Num 20000, carAge = Num 5, carPassengers = Num 1,
      publicTransportType = ''none'', publicTransportKm = Num 0, flightsShortHaul = Num 0,
      flightsMediumHaul = Num 0, flightsLongHaul = Num 0, motorcycle = m\<rparr>
   = (Num 20000 * dbl 0.192 * (Num 1 + Num 5 * dbl 0.02)) / Num 1 / Num 1000
   \<and> (Num 20000 * dbl 0.192 * (Num 1 + Num 5 * dbl 0.02)) / Num 1 / Num 1000 = dbl 4.224"
  by (simp add: calculateTransportEmissions_def car_petrol EMISSIONS_FACTORS_flights_def
      round64_eval)

text \<open>
  Claim C3. For the energy input with 6000 kWh of electricity, gas heating with a consumption
  of 1000, medium insulation and renewables disabled, the energy calculator returns
  ((6000 / 1000) * 0.0571 + (1000 * 10.55 / 1000) * 0.205) * 1.0. In binary64 arithmetic the
  electricity term is the number 0.3426, the heating energy is 10550, the heating term is
  2.16275, and their sum and the result are 2.50535, whatever the home fields and the stored
  renewable percentage.
\<close>

theorem C3_energy_scenario:
  "calculateEnergyEmissions
     \<lparr>homeType = ht, homeSize = hs, occupants = oc, electricityKwh = Num 6000,
      heatingType = ''gas'', heatingConsumption = Num 1000, renewableEnergy = False,
      renewablePercentage = rp, insulation = ''medium''\<rparr>
   = ((Num 6000 / Num 1000) * dbl 0.0571 + (Num 1000 * dbl 10.55 / Num 1000) * dbl 0.205)
       * dbl 1.0
   \<and> (Num 6000 / Num 1000) * dbl 0.0571 = dbl 0.3426
   \<and> Num 1000 * dbl 10.55 = Num 10550
   \<and> (Num 1000 * dbl 10.55 / Num 1000) * dbl 0.205 = dbl 2.16275
   \<and> dbl 0.3426 + dbl 2.16275 = dbl 2.50535
   \<and> ((Num 6000 / Num 1000) * dbl 0.0571 + (Num 1000 * dbl 10.55 / Num 1000) * dbl 0.205)
       * dbl 1.0 = dbl 2.50535"
  by (simp add: calculateEnergyEmissions_def conversion_gas heating_gas insulation_medium
      or_else_def round64_eval split: option.split)

section \<open>Aggregator\<close>

text \<open>
  Claim C8. For every state, \<^verbatim>\<open>calculateFinalFootprint\<close> stores a result whose total is
  the sum of the three sector outputs, whose breakdown holds these outputs, and whose
  comparison block holds (total - 9.0) / 9.0 * 100, (total - 4.7) / 4.7 * 100 and the two
  averages 9.0 and 4.7.
\<close>

theorem C8_total_and_comparison:
  "\<exists>r. carbonFootprint (calculateFinalFootprint s) = Some r
     \<and> total r = calculateTransportEmissions (transport (formData s))
                 + calculateEnergyEmissions (energy (formData s))
                 + calculateLifestyleEmissions (lifestyle (formData s))
     \<and> transport_t (breakdown r) = calculateTransportEmissions (transport (formData s))
     \<and> energy_t (breakdown r) = calculateEnergyEmissions (energy (formData s))
     \<and> lifestyle_t (breakdown r) = calculateLifestyleEmissions (lifestyle (formData s))
     \<and> percentageFromNational (comparison r) = (total r - dbl 9.0) / dbl 9.0 * Num 100
     \<and> percentageFromWorld (comparison r) = (total r - dbl 4.7) / dbl 4.7 * Num 100
     \<and> nationalAverage (comparison r) = dbl 9.0
     \<and> worldAverage (comparison r) = dbl 4.7"
  unfolding calculateFinalFootprint_def compareToNationalAverage_def Let_def by simp

section \<open>Lifestyle reductions\<close>

text \<open>
  Claim C7, as the code has it. For every lifestyle input, the output with recycling and
  composting both enabled is the output with both disabled multiplied by 0.9 and then by
  0.95, each product rounded to binary64; each flag alone multiplies by its own factor; and
  the output with both disabled is the combined diet plus shopping total. The result is
  0.855 times the unreduced output up to these two roundings, not exactly.
\<close>

theorem C7_recycling_and_composting:
  "calculateLifestyleEmissions (l\<lparr>wasteRecycling := True, wasteComposting := True\<rparr>)
     = calculateLifestyleEmissions (l\<lparr>wasteRecycling := False, wasteComposting := False\<rparr>)
         * dbl 0.9 * dbl 0.95
   \<and> calculateLifestyleEmissions (l\<lparr>wasteRecycling := True, wasteComposting := False\<rparr>)
     = calculateLifestyleEmissions (l\<lparr>wasteRecycling := False, wasteComposting := False\<rparr>)
         * dbl 0.9
   \<and> calculateLifestyleEmissions (l\<lparr>wasteRecycling := False, wasteComposting := True\<rparr>)
     = calculateLifestyleEmissions (l\<lparr>wasteRecycling := False, wasteComposting := False\<rparr>)
         * dbl 0.95
   \<and> calculateLifestyleEmissions (l\<lparr>wasteRecycling := False, wasteComposting := False\<rparr>)
     = Num 0
       + (ToNumber (or_else (get_prop EMISSIONS_FACTORS_diet (dietType l))
                            (get_prop EMISSIONS_FACTORS_diet ''omnivore''))
            * (Num 1 - localFoodPercentage l * dbl 0.002)) / Num 1000
       + (clothes (shoppingHabits l) * dbl 0.1 + electronics (shoppingHabits l) * dbl 0.2
            + furniture (shoppingHabits l) * dbl 0.15) * dbl 0.01"
  by (simp add: calculateLifestyleEmissions_def Let_def)

text \<open>
  Claim C7 as stated fails: for the initial lifestyle form with the clothes and electronics
  sliders at 0, the output with both flags is 2.2016250000000004, while 0.855 times the output
  without flags (2.575) is 2.201625.
\<close>

theorem C7_recycling_and_composting_counterexample:
  "calculateLifestyleEmissions
     (slidersAtZero\<lparr>wasteRecycling := False, wasteComposting := False\<rparr>) = dbl 2.575
   \<and> calculateLifestyleEmissions
       (slidersAtZero\<lparr>wasteRecycling := True, wasteComposting := True\<rparr>)
     = dbl 2.2016250000000004
   \<and> dbl 0.855 * calculateLifestyleEmissions
       (slidersAtZero\<lparr>wasteRecycling := False, wasteComposting := False\<rparr>)
     = dbl 2.201625
   \<and> dbl 0.9 * dbl 0.95 = dbl 0.855
   \<and> dbl 2.201625 < dbl 2.2016250000000004
   \<and> calculateLifestyleEmissions
       (slidersAtZero\<lparr>wasteRecycling := True, wasteComposting := True\<rparr>)
     \<noteq> dbl 0.855 * calculateLifestyleEmissions
       (slidersAtZero\<lparr>wasteRecycling := False, wasteComposting := False\<rparr>)"
proof -
  have none: "calculateLifestyleEmissions
     (slidersAtZero\<lparr>wasteRecycling := False, wasteComposting := False\<rparr>) = dbl 2.575"
    by (simp add: calculateLifestyleEmissions_def slidersAtZero_def initialFormData_def
        diet_empty diet_omnivore or_else_def round64_eval)
  have both: "calculateLifestyleEmissions
     (slidersAtZero\<lparr>wasteRecycling := True, wasteComposting := True\<rparr>)
     = dbl 2.2016250000000004"
    by (simp add: calculateLifestyleEmissions_def slidersAtZero_def initialFormData_def
        diet_empty diet_omnivore or_else_def round64_eval)
  have v: "dbl 0.855 * dbl 2.575 = dbl 2.201625" "dbl 0.9 * dbl 0.95 = dbl 0.855"
    "dbl 2.201625 < dbl 2.2016250000000004" "dbl 2.2016250000000004 \<noteq> dbl 2.201625"
    by (simp_all add: round64_eval)
  show ?thesis
    unfolding both none using v by simp
qed

section \<open>The input of zeros\<close>

text \<open>
  Claim C1, as the code has it. For every input with every numeric field at 0 and every
  categorical field at \<^verbatim>\<open>none\<close> or at its initial value, the transport and energy
  outputs are 0 and the total equals the lifestyle output, which is the default (omnivore)
  diet baseline of 2.5 tonnes, reduced to 2.25 with recycling, to 2.375 with composting and
  to 2.1374999999999997 with both; so the total is at least 2.1374999999999997 tonnes and
  never 0.
\<close>

theorem C1_zero_input: "all_zero_neutral (formData s) \<Longrightarrow>
  (\<exists>r. carbonFootprint (calculateFinalFootprint s) = Some r
     \<and> transport_t (breakdown r) = Num 0
     \<and> energy_t (breakdown r) = Num 0
     \<and> lifestyle_t (breakdown r) =
         (if wasteRecycling (lifestyle (formData s))
          then (if wasteComposting (lifestyle (formData s))
                then dbl 2.1374999999999997 else Num 2.25)
          else (if wasteComposting (lifestyle (formData s)) then Num 2.375 else Num 2.5))
     \<and> total r = lifestyle_t (breakdown r)
     \<and> dbl 2.1374999999999997 \<le> total r
     \<and> total r \<noteq> Num 0)"
proof -
  assume a: "all_zero_neutral (formData s)"
  have t: "calculateTransportEmissions (transport (formData s)) = Num 0"
    using a by (intro transport_zero) (simp_all add: all_zero_neutral_def)
  have e: "calculateEnergyEmissions (energy (formData s)) = Num 0"
    using a by (intro energy_zero) (simp_all add: all_zero_neutral_def)
  have l: "calculateLifestyleEmissions (lifestyle (formData s)) =
         (if wasteRecycling (lifestyle (formData s))
          then (if wasteComposting (lifestyle (formData s))
                then dbl 2.1374999999999997 else Num 2.25)
          else (if wasteComposting (lifestyle (formData s)) then Num 2.375 else Num 2.5))"
    using a by (intro lifestyle_default) (simp_all add: all_zero_neutral_def)
  show ?thesis
    unfolding calculateFinalFootprint_def Let_def t e l by (simp add: round64_eval)
qed

text \<open>The theorem at the input of zeros: the hypothesis holds there and the total is 2.5.\<close>

theorem C1_zero_input_witness:
  "all_zero_neutral (formData (initialAppState\<lparr>formData := zeroFormData\<rparr>))
   \<and> (\<exists>r. carbonFootprint (calculateFinalFootprint (initialAppState\<lparr>formData := zeroFormData\<rparr>))
            = Some r
     \<and> transport_t (breakdown r) = Num 0
     \<and> energy_t (breakdown r) = Num 0
     \<and> lifestyle_t (breakdown r) = Num 2.5
     \<and> total r = Num 2.5)"
proof -
  have h: "all_zero_neutral (formData (initialAppState\<lparr>formData := zeroFormData\<rparr>))"
    by (simp add: all_zero_neutral_zeroFormData)
  have f: "\<not> wasteRecycling (lifestyle (formData (initialAppState\<lparr>formData := zeroFormData\<rparr>)))"
     "\<not> wasteComposting (lifestyle (formData (initialAppState\<lparr>formData := zeroFormData\<rparr>)))"
    by (simp_all add: zeroFormData_def initialFormData_def)
  from C1_zero_input [OF h] obtain r where
    "carbonFootprint (calculateFinalFootprint (initialAppState\<lparr>formData := zeroFormData\<rparr>)) = Some r"
    "transport_t (breakdown r) = Num 0" "energy_t (breakdown r) = Num 0"
    "lifestyle_t (breakdown r) = Num 2.5" "total r = lifestyle_t (breakdown r)"
    using f by auto
  with h show ?thesis by auto
qed

text \<open>
  Claim C1 as stated fails: the input of zeros has every numeric field at 0 and every
  categorical field at its neutral default, and its total is 2.5 tonnes, not 0.
\<close>

theorem C1_zero_input_counterexample:
  "all_zero_neutral zeroFormData
   \<and> map_option total
       (carbonFootprint (calculateFinalFootprint (initialAppState\<lparr>formData := zeroFormData\<rparr>)))
     = Some (Num 2.5)
   \<and> map_option total
       (carbonFootprint (calculateFinalFootprint (initialAppState\<lparr>formData := zeroFormData\<rparr>)))
     \<noteq> Some (Num 0)"
proof -
  have t: "calculateTransportEmissions (transport zeroFormData) = Num 0"
    by (rule transport_zero) (simp_all add: zeroFormData_def initialFormData_def)
  have e: "calculateEnergyEmissions (energy zeroFormData) = Num 0"
    by (rule energy_zero) (simp_all add: zeroFormData_def initialFormData_def zero_opt_def)
  have "calculateLifestyleEmissions (lifestyle zeroFormData) =
         (if wasteRecycling (lifestyle zeroFormData)
          then (if wasteComposting (lifestyle zeroFormData)
                then dbl 2.1374999999999997 else Num 2.25)
          else (if wasteComposting (lifestyle zeroFormData) then Num 2.375 else Num 2.5))"
    by (rule lifestyle_default) (simp_all add: zeroFormData_def initialFormData_def)
  then have l: "calculateLifestyleEmissions (lifestyle zeroFormData) = Num 2.5"
    by (simp add: zeroFormData_def initialFormData_def)
  show ?thesis
    unfolding calculateFinalFootprint_def Let_def formData_upd t e l
    by (simp add: all_zero_neutral_zeroFormData round64_eval)
qed

section \<open>Recommendation engine against the threshold table\<close>

lemma fired_transport:
  "fired transport_rules fd =
     (if carKm (transport fd) > Num 15000 then [action_carKm] else [])
     @ (if flightsLongHaul (transport fd) > Num 0 then [action_flightsLongHaul] else [])
     @ (if carType (transport fd) = ''petrol'' \<or> carType (transport fd) = ''diesel''
        then [action_carType] else [])"
  by (simp add: fired_def transport_rules_def)

lemma fired_energy:
  "fired energy_rules fd =
     (if electricityKwh (energy fd) > Num 5000 then [action_electricityKwh] else [])
     @ (if \<not> renewableEnergy (energy fd) then [action_renewableEnergy] else [])
     @ (if insulation (energy fd) = ''poor'' \<or> insulation (energy fd) = ''medium''
        then [action_insulation] else [])
     @ (if heatingType (energy fd) = ''oil'' then [action_heatingType] else [])"
  by (simp add: fired_def energy_rules_def)

lemma fired_lifestyle:
  "fired lifestyle_rules fd =
     (if dietType (lifestyle fd) = ''omnivore'' then [action_dietType] else [])
     @ (if localFoodPercentage (lifestyle fd) < Num 30 then [action_localFood] else [])
     @ (if \<not> wasteRecycling (lifestyle fd) \<or> \<not> wasteComposting (lifestyle fd)
        then [action_waste] else [])
     @ (if clothes (shoppingHabits (lifestyle fd)) > Num 70
           \<or> electronics (shoppingHabits (lifestyle fd)) > Num 70
        then [action_shopping] else [])"
  by (simp add: fired_def lifestyle_rules_def)

lemma spec_recommendations_sectors:
  "spec_recommendations fd =
     (if fired transport_rules fd \<noteq> []
      then [\<lparr>category = ''Transport'', actions = fired transport_rules fd\<rparr>] else [])
     @ (if fired energy_rules fd \<noteq> []
        then [\<lparr>category = ''Energie'', actions = fired energy_rules fd\<rparr>] else [])
     @ (if fired lifestyle_rules fd \<noteq> []
        then [\<lparr>category = ''Mode de vie'', actions = fired lifestyle_rules fd\<rparr>] else [])"
  by (simp add: spec_recommendations_def threshold_table_def)

text \<open>Three and four conditional pushes onto an empty array, as one append.\<close>

lemma pushes3:
  "(let r = []; r = (if p1 then r @ [a1] else r); r = (if p2 then r @ [a2] else r);
        r = (if p3 then r @ [a3] else r) in f r)
   = f ((if p1 then [a1] else []) @ (if p2 then [a2] else []) @ (if p3 then [a3] else []))"
  by (simp add: Let_def)

lemma pushes4:
  "(let r = []; r = (if p1 then r @ [a1] else r); r = (if p2 then r @ [a2] else r);
        r = (if p3 then r @ [a3] else r); r = (if p4 then r @ [a4] else r) in f r)
   = f ((if p1 then [a1] else []) @ (if p2 then [a2] else []) @ (if p3 then [a3] else [])
        @ (if p4 then [a4] else []))"
  by (simp add: Let_def)

lemma getDetailedRecommendations_sectors:
  "getDetailedRecommendations s =
     (if fired transport_rules (formData s) \<noteq> []
      then [\<lparr>category = ''Transport'', actions = fired transport_rules (formData s)\<rparr>] else [])
     @ (if fired energy_rules (formData s) \<noteq> []
        then [\<lparr>category = ''Energie'', actions = fired energy_rules (formData s)\<rparr>] else [])
     @ (if fired lifestyle_rules (formData s) \<noteq> []
        then [\<lparr>category = ''Mode de vie'', actions = fired lifestyle_rules (formData s)\<rparr>]
        else [])"
proof -
  have "getDetailedRecommendations s =
     (let recommendations = [];
          transportRecs = fired transport_rules (formData s);
          recommendations =
            (if length transportRecs > 0
             then recommendations @ [\<lparr>category = ''Transport'', actions = transportRecs\<rparr>]
             else recommendations);
          energyRecs = fired energy_rules (formData s);
          recommendations =
            (if length energyRecs > 0
             then recommendations @ [\<lparr>category = ''Energie'', actions = energyRecs\<rparr>]
             else recommendations);
          lifestyleRecs = fired lifestyle_rules (formData s);
          recommendations =
            (if length lifestyleRecs > 0
             then recommendations @ [\<lparr>category = ''Mode de vie'', actions = lifestyleRecs\<rparr>]
             else recommendations)
      in recommendations)"
    unfolding getDetailedRecommendations_def fired_transport fired_energy fired_lifestyle
    apply (subst pushes3)
    apply (subst pushes4)
    apply (subst pushes4)
    apply (simp only: Let_def)
    done
  also have "\<dots> = (if fired transport_rules (formData s) \<noteq> []
      then [\<lparr>category = ''Transport'', actions = fired transport_rules (formData s)\<rparr>] else [])
     @ (if fired energy_rules (formData s) \<noteq> []
        then [\<lparr>category = ''Energie'', actions = fired energy_rules (formData s)\<rparr>] else [])
     @ (if fired lifestyle_rules (formData s) \<noteq> []
        then [\<lparr>category = ''Mode de vie'', actions = fired lifestyle_rules (formData s)\<rparr>]
        else [])"
    by (simp add: Let_def)
  finally show ?thesis .
qed

lemma getDetailedRecommendations_spec:
  "getDetailedRecommendations s = spec_recommendations (formData s)"
  by (simp only: getDetailedRecommendations_sectors spec_recommendations_sectors)

text \<open>
  Claim C4. The engine computes what the threshold table describes: within each sector every
  predicate is evaluated on its own, each true predicate contributes its action in the table's
  order, and a sector appears only if one of its predicates fired. In particular, with
  carKm = 20000 and carType = petrol the first category is Transport and its actions are the
  high-distance action, then the long-haul action if there are long-haul flights, then the
  vehicle action; the first and the last are different actions.
\<close>

theorem C4_recommendations:
  "getDetailedRecommendations s = spec_recommendations (formData s)
   \<and> (carKm (transport (formData s)) = Num 20000 \<and> carType (transport (formData s)) = ''petrol''
        \<longrightarrow> (\<exists>rest. getDetailedRecommendations s =
               \<lparr>category = ''Transport'',
                actions = [action_carKm]
                  @ (if flightsLongHaul (transport (formData s)) > Num 0
                     then [action_flightsLongHaul] else [])
                  @ [action_carType]\<rparr> # rest))
   \<and> action_carKm \<noteq> action_carType"
proof (intro conjI impI)
  show "getDetailedRecommendations s = spec_recommendations (formData s)"
    by (simp only: getDetailedRecommendations_sectors spec_recommendations_sectors)
next
  assume a: "carKm (transport (formData s)) = Num 20000
    \<and> carType (transport (formData s)) = ''petrol''"
  then have f: "fired transport_rules (formData s) =
      [action_carKm]
        @ (if flightsLongHaul (transport (formData s)) > Num 0
           then [action_flightsLongHaul] else [])
        @ [action_carType]"
    by (simp add: fired_transport)
  then have ne: "fired transport_rules (formData s) \<noteq> []"
    by simp
  show "\<exists>rest. getDetailedRecommendations s =
               \<lparr>category = ''Transport'',
                actions = [action_carKm]
                  @ (if flightsLongHaul (transport (formData s)) > Num 0
                     then [action_flightsLongHaul] else [])
                  @ [action_carType]\<rparr> # rest"
    unfolding getDetailedRecommendations_sectors if_P [OF ne] f by simp
next
  show "action_carKm \<noteq> action_carType"
    by (simp add: action_carKm_def action_carType_def)
qed

text \<open>
  The theorem at the initial form with carKm = 20000 and carType = petrol: the hypothesis holds
  and the output lists both Transport actions in order.
\<close>

theorem C4_recommendations_witness:
  "carKm (transport (formData scenario4)) = Num 20000
   \<and> carType (transport (formData scenario4)) = ''petrol''
   \<and> getDetailedRecommendations scenario4 =
       [\<lparr>category = ''Transport'', actions = [action_carKm, action_carType]\<rparr>,
        \<lparr>category = ''Energie'', actions = [action_renewableEnergy, action_insulation]\<rparr>,
        \<lparr>category = ''Mode de vie'', actions = [action_localFood, action_waste]\<rparr>]"
proof -
  have fd: "formData scenario4 = initialFormData
        \<lparr>transport := (transport initialFormData)\<lparr>carType := ''petrol'', carKm := Num 20000\<rparr>\<rparr>"
    by (simp add: scenario4_def)
  have h: "carKm (transport (formData scenario4)) = Num 20000
     \<and> carType (transport (formData scenario4)) = ''petrol''"
    by (simp add: fd)
  have t: "fired transport_rules (formData scenario4) = [action_carKm, action_carType]"
    by (simp add: fired_transport fd initialFormData_def)
  have e: "fired energy_rules (formData scenario4) = [action_renewableEnergy, action_insulation]"
    by (simp add: fired_energy fd initialFormData_def)
  have l: "fired lifestyle_rules (formData scenario4) = [action_localFood, action_waste]"
    by (simp add: fired_lifestyle fd initialFormData_def)
  have "getDetailedRecommendations scenario4 = spec_recommendations (formData scenario4)"
    using C4_recommendations [of scenario4] by blast
  then show ?thesis
    using h by (simp add: spec_recommendations_sectors t e l)
qed

section \<open>Fields no formula reads\<close>

lemma transport_clear:
  "calculateTransportEmissions (transport (clear_unused fd))
     = calculateTransportEmissions (transport fd)"
  by (simp add: calculateTransportEmissions_def clear_unused_def Let_def)

lemma energy_clear:
  "calculateEnergyEmissions (energy (clear_unused fd)) = calculateEnergyEmissions (energy fd)"
  by (simp add: calculateEnergyEmissions_def clear_unused_def Let_def cong: option.case_cong)

lemma lifestyle_clear:
  "calculateLifestyleEmissions (lifestyle (clear_unused fd))
     = calculateLifestyleEmissions (lifestyle fd)"
  by (simp add: calculateLifestyleEmissions_def clear_unused_def Let_def)

lemma spec_recommendations_clear:
  "spec_recommendations (clear_unused fd) = spec_recommendations fd"
proof -
  have "fired transport_rules (clear_unused fd) = fired transport_rules fd"
    by (simp add: fired_transport clear_unused_def)
  moreover have "fired energy_rules (clear_unused fd) = fired energy_rules fd"
    by (simp add: fired_energy clear_unused_def)
  moreover have "fired lifestyle_rules (clear_unused fd) = fired lifestyle_rules fd"
    by (simp add: fired_lifestyle clear_unused_def)
  ultimately show ?thesis
    by (simp only: spec_recommendations_sectors)
qed


text \<open>
  Claim C9. Two states whose inputs differ only in the motorcycle fields, home type, home
  size, occupants, meat frequency and water consumption give the same output of each sector
  calculator, the same stored footprint and the same recommendations.
\<close>

theorem C9_unused_fields:
  assumes "differ_only_in_unused (formData s) (formData s')"
  shows "calculateTransportEmissions (transport (formData s))
           = calculateTransportEmissions (transport (formData s'))
     \<and> calculateEnergyEmissions (energy (formData s))
           = calculateEnergyEmissions (energy (formData s'))
     \<and> calculateLifestyleEmissions (lifestyle (formData s))
           = calculateLifestyleEmissions (lifestyle (formData s'))
     \<and> carbonFootprint (calculateFinalFootprint s) = carbonFootprint (calculateFinalFootprint s')
     \<and> getDetailedRecommendations s = getDetailedRecommendations s'"
proof -
  from assms have c: "clear_unused (formData s) = clear_unused (formData s')"
    by (simp add: differ_only_in_unused_def)
  have t: "calculateTransportEmissions (transport (formData s))
           = calculateTransportEmissions (transport (formData s'))"
    using transport_clear [of "formData s"] transport_clear [of "formData s'"] c by simp
  have e: "calculateEnergyEmissions (energy (formData s))
           = calculateEnergyEmissions (energy (formData s'))"
    using energy_clear [of "formData s"] energy_clear [of "formData s'"] c by simp
  have l: "calculateLifestyleEmissions (lifestyle (formData s))
           = calculateLifestyleEmissions (lifestyle (formData s'))"
    using lifestyle_clear [of "formData s"] lifestyle_clear [of "formData s'"] c by simp
  have r: "getDetailedRecommendations s = getDetailedRecommendations s'"
    using spec_recommendations_clear [of "formData s"] spec_recommendations_clear [of "formData s'"] c
    by (simp add: getDetailedRecommendations_spec)
  have f: "carbonFootprint (calculateFinalFootprint s) = carbonFootprint (calculateFinalFootprint s')"
    unfolding calculateFinalFootprint_def Let_def t e l by simp
  from t e l f r show ?thesis by blast
qed

text \<open>
  The theorem at the initial form and a variant of it with all six unused fields changed.
\<close>

theorem C9_unused_fields_witness:
  "differ_only_in_unused (formData initialAppState) (formData unusedVariant)
   \<and> formData initialAppState \<noteq> formData unusedVariant
   \<and> calculateTransportEmissions (transport (formData initialAppState))
       = calculateTransportEmissions (transport (formData unusedVariant))
   \<and> calculateEnergyEmissions (energy (formData initialAppState))
       = calculateEnergyEmissions (energy (formData unusedVariant))
   \<and> calculateLifestyleEmissions (lifestyle (formData initialAppState))
       = calculateLifestyleEmissions (lifestyle (formData unusedVariant))
   \<and> carbonFootprint (calculateFinalFootprint initialAppState)
       = carbonFootprint (calculateFinalFootprint unusedVariant)
   \<and> getDetailedRecommendations initialAppState = getDetailedRecommendations unusedVariant"
proof -
  have h: "differ_only_in_unused (formData initialAppState) (formData unusedVariant)"
    by (simp add: differ_only_in_unused_def clear_unused_def initialAppState_def
        unusedVariant_def initialFormData_def)
  have n: "formData initialAppState \<noteq> formData unusedVariant"
  proof
    assume "formData initialAppState = formData unusedVariant"
    then have "homeType (energy (formData initialAppState))
        = homeType (energy (formData unusedVariant))"
      by simp
    then show False
      by (simp add: initialAppState_def unusedVariant_def initialFormData_def)
  qed
  from C9_unused_fields [OF h] h n show ?thesis
    by blast
qed

section \<open>Monotonicity of the car contribution\<close>

lemma calculateTransportEmissions_car:
  assumes "carType t \<noteq> ''''" and "carType t \<noteq> ''none''"
  shows "calculateTransportEmissions t =
     (let emissions = Num 0 + carContribution t;
          emissions =
            (if publicTransportType t \<noteq> '''' \<and> publicTransportType t \<noteq> ''none'' then
               emissions + publicTransportKm t
                 * ToNumber (get_prop EMISSIONS_FACTORS_publicTransport (publicTransportType t))
             else emissions)
      in (emissions + flightsShortHaul t * dbl 180 + flightsMediumHaul t * dbl 400
            + flightsLongHaul t * dbl 1800) / Num 1000)"
  using assms
  by (simp add: calculateTransportEmissions_def carContribution_def Let_def
      EMISSIONS_FACTORS_flights_def)




text \<open>
  A positive result below half the smallest binary64 value rounds to 0. So the car
  contribution at the smallest positive distance, \<open>2 ^ - 1074\<close>, is 0 for every passenger
  count: the decrease in the passenger count is not strict there either.
\<close>

lemma round64_underflow:
  assumes "0 \<le> x" and "x < 2 powi (- 1075)"
  shows "round64 x = Num 0"
proof -
  have u: "2 powi (- 1074) \<le> ulp x"
    unfolding ulp_def by (intro power_int_increasing) simp_all
  have "x / ulp x \<le> x / 2 powi (- 1074)"
    using u assms(1) by (intro divide_left_mono) simp_all
  also have "\<dots> < 2 powi (- 1075) / 2 powi (- 1074)"
    using assms(2) by (intro divide_strict_right_mono) simp_all
  also have "(2::real) powi (- 1075) / 2 powi (- 1074) = 1 / 2"
    using power_int_diff [of "2::real" "- 1075" "- 1074"] by simp
  finally have y: "x / ulp x < 1 / 2" .
  have y0: "0 \<le> x / ulp x"
    using assms(1) by simp
  from y y0 have "\<lfloor>x / ulp x\<rfloor> = 0"
    by (intro floor_unique; linarith)
  with y have "round_half_even (x / ulp x) = 0"
    by (simp add: round_half_even_def Let_def)
  then have "round_real x = 0"
    using assms(1) by (simp add: round_real_def)
  then show ?thesis
    using threshold_pos by (simp add: round64_def overflow_def)
qed

lemma dbl_quarter: "dbl (1 / 4) = Num (1 / 4)"
  by (simp add: round64_eval)

lemma carContribution_underflow:
  assumes "carType t = ''petrol''" and "carKm t = Num (2 powi (- 1074))"
    and "carAge t = Num 0" and "carPassengers t = Num p"
  shows "carContribution t = Num 0"
proof -
  obtain b where b: "dbl 0.192 = Num b" "0 \<le> b" "b \<le> 1 / 4"
    by (rule dbl_between [OF _ _ dbl_integers(1) dbl_quarter, of "0.192"]) simp_all
  have "(2::real) powi (- 1074) * b \<le> 2 powi (- 1074) * (1 / 4)"
    using b(3) by (intro mult_left_mono) simp_all
  also have "(2::real) powi (- 1074) * (1 / 4) = 2 powi (- 1076)"
    using power_int_diff [of "2::real" "- 1074" 2] by simp
  also have "(2::real) powi (- 1076) < 2 powi (- 1075)"
    by (intro power_int_strict_increasing) simp_all
  finally have "round64 (2 powi (- 1074) * b) = Num 0"
    using b(2) by (intro round64_underflow) simp_all
  then have k: "Num (2 powi (- 1074)) * dbl 0.192 = Num 0"
    unfolding b(1) times_jsnum.simps .
  have m: "Num 1 + Math_min (Num 0) (Num 15) * dbl 0.02 = Num 1"
    by (simp add: round64_eval)
  show ?thesis
    unfolding carContribution_def Let_def assms car_petrol ToNumber.simps k m
    by simp
qed




section \<open>Category strings and the transport tables\<close>

lemma ToNumber_miss:
  "map_of obj k = None \<Longrightarrow> ToNumber (get_prop obj k) = NaN"
  by (simp add: get_prop_def)

lemma unknown_carType_NaN:
  assumes "carType t \<noteq> ''''" and "carType t \<noteq> ''none''"
    and "map_of EMISSIONS_FACTORS_car (carType t) = None"
  shows "calculateTransportEmissions t = NaN"
  using assms(1,2)
  by (simp add: calculateTransportEmissions_def Let_def ToNumber_miss [OF assms(3)])

lemma unknown_publicTransportType_NaN:
  assumes "publicTransportType t \<noteq> ''''" and "publicTransportType t \<noteq> ''none''"
    and "map_of EMISSIONS_FACTORS_publicTransport (publicTransportType t) = None"
  shows "calculateTransportEmissions t = NaN"
  using assms(1,2)
  by (simp add: calculateTransportEmissions_def Let_def ToNumber_miss [OF assms(3)])








section \<open>Lower bound of the lifestyle sector\<close>

lemma diet_lookup:
  assumes "k \<notin> set Object_prototype_properties"
  shows "\<exists>d. ToNumber (or_else (get_prop EMISSIONS_FACTORS_diet k)
                      (get_prop EMISSIONS_FACTORS_diet ''omnivore'')) = Num d
             \<and> 1000 \<le> d \<and> d \<le> 2500"
proof (cases "map_of EMISSIONS_FACTORS_diet k")
  case None
  with assms have "get_prop EMISSIONS_FACTORS_diet k = Undefined"
    by (simp add: get_prop_def)
  then show ?thesis
    by (simp add: or_else_def diet_omnivore dbl_integers)
next
  case (Some v)
  then have "(k, v) \<in> set EMISSIONS_FACTORS_diet"
    by (rule map_of_SomeD)
  then have "v = 1000 \<or> v = 1500 \<or> v = 1700 \<or> v = 2000 \<or> v = 2500"
    by (auto simp add: EMISSIONS_FACTORS_diet_def)
  then have v: "dbl v = Num v" "1000 \<le> v" "v \<le> 2500"
    by (auto simp add: dbl_integers)
  from Some have "get_prop EMISSIONS_FACTORS_diet k = Number (dbl v)"
    by (simp add: get_prop_def)
  with v show ?thesis
    by (simp add: or_else_def)
qed

lemma unknown_diet_is_omnivore:
  assumes "k \<notin> set Object_prototype_properties" and "map_of EMISSIONS_FACTORS_diet k = None"
  shows "or_else (get_prop EMISSIONS_FACTORS_diet k) (get_prop EMISSIONS_FACTORS_diet ''omnivore'')
       = or_else (get_prop EMISSIONS_FACTORS_diet ''omnivore'')
           (get_prop EMISSIONS_FACTORS_diet ''omnivore'')"
  using assms by (simp add: get_prop_def or_else_def)

lemma lifestyle_base_bound:
  assumes d: "1000 \<le> d"
    and p: "0 \<le> p" "p \<le> 100"
    and c: "0 \<le> c" and e: "0 \<le> e" and f: "0 \<le> f"
  shows "dbl 0.8 \<le> Num 0 + (Num d * (Num 1 - Num p * dbl 0.002)) / Num 1000
      + (Num c * dbl 0.1 + Num e * dbl 0.2 + Num f * dbl 0.15) * dbl 0.01"
proof -
  let ?adj = "Num 1 - Num p * dbl 0.002"
  have ev: "Num 1 - Num 100 * dbl 0.002 = dbl 0.8" "Num 0 \<le> dbl 0.8"
    "Num 0 + (Num 1000 * dbl 0.8) / Num 1000 = dbl 0.8" "dbl 0.8 + Num 0 = dbl 0.8"
    "dbl 0.8 \<noteq> NInf"
    by (simp_all add: round64_eval)
  have "Num p \<le> Num 100"
    using p(2) by simp
  then have "Num p * dbl 0.002 \<le> Num 100 * dbl 0.002"
    by (rule mul_dbl_mono) simp_all
  then have "Num 1 - Num 100 * dbl 0.002 \<le> ?adj"
    by (rule sub_antimono_js)
  then have adj: "dbl 0.8 \<le> ?adj"
    by (simp only: ev(1))
  from le_trans_js [OF ev(2) adj] have adj0: "Num 0 \<le> ?adj" .
  have "Num 1000 * dbl 0.8 \<le> Num 1000 * ?adj"
    using adj by (rule mul_left_fixed_mono_js) simp
  moreover have "Num 1000 * ?adj \<le> Num d * ?adj"
    using adj0 _ d by (rule mul_factor_mono_js) simp
  ultimately have "Num 1000 * dbl 0.8 \<le> Num d * ?adj"
    by (rule le_trans_js)
  then have "(Num 1000 * dbl 0.8) / Num 1000 \<le> (Num d * ?adj) / Num 1000"
    by (rule div_right_mono_js) simp
  then have "Num 0 + (Num 1000 * dbl 0.8) / Num 1000 \<le> Num 0 + (Num d * ?adj) / Num 1000"
    by (rule add_fixed_mono_js)
  then have diet: "dbl 0.8 \<le> Num 0 + (Num d * ?adj) / Num 1000"
    by (simp only: ev(3))
  have "Num 0 \<le> Num c * dbl 0.1" "Num 0 \<le> Num e * dbl 0.2" "Num 0 \<le> Num f * dbl 0.15"
    using c e f by (intro nonneg_mul_dbl; simp)+
  then have "Num 0 \<le> Num c * dbl 0.1 + Num e * dbl 0.2 + Num f * dbl 0.15"
    by (intro nonneg_add)
  then have shop: "Num 0 \<le> (Num c * dbl 0.1 + Num e * dbl 0.2 + Num f * dbl 0.15) * dbl 0.01"
    by (rule nonneg_mul_dbl) simp_all
  have "dbl 0.8 + Num 0 \<le> Num 0 + (Num d * ?adj) / Num 1000
      + (Num c * dbl 0.1 + Num e * dbl 0.2 + Num f * dbl 0.15) * dbl 0.01"
    using diet shop ev(5) by (rule add_mono_js) simp
  then show ?thesis
    by (simp only: ev(4))
qed

lemma flag_bounds:
  "dbl 0.684 \<le> dbl 0.8" "dbl 0.684 \<le> dbl 0.8 * dbl 0.9" "dbl 0.684 \<le> dbl 0.8 * dbl 0.95"
  "dbl 0.684 \<le> dbl 0.8 * dbl 0.9 * dbl 0.95" "dbl 0.8 * dbl 0.9 * dbl 0.95 = dbl 0.684"
  "Num 0 < dbl 0.684" "Num 0 + Num 0 + dbl 0.684 = dbl 0.684"
  by (simp_all add: round64_eval)

lemma lifestyle_lower_bound:
  assumes k: "dietType l \<notin> set Object_prototype_properties"
    and p: "localFoodPercentage l = Num p" "0 \<le> p" "p \<le> 100"
    and c: "clothes (shoppingHabits l) = Num c" "0 \<le> c"
    and e: "electronics (shoppingHabits l) = Num e" "0 \<le> e"
    and f: "furniture (shoppingHabits l) = Num f" "0 \<le> f"
  shows "dbl 0.684 \<le> calculateLifestyleEmissions l"
proof -
  from diet_lookup [OF k] obtain d where
    d: "ToNumber (or_else (get_prop EMISSIONS_FACTORS_diet (dietType l))
                (get_prop EMISSIONS_FACTORS_diet ''omnivore'')) = Num d"
    and d1: "1000 \<le> d"
    by blast
  define base where "base = Num 0 + (Num d * (Num 1 - Num p * dbl 0.002)) / Num 1000
      + (Num c * dbl 0.1 + Num e * dbl 0.2 + Num f * dbl 0.15) * dbl 0.01"
  have b: "dbl 0.8 \<le> base"
    unfolding base_def using d1 p(2,3) c(2) e(2) f(2) by (rule lifestyle_base_bound)
  have r: "calculateLifestyleEmissions l =
      (if wasteRecycling l
       then (if wasteComposting l then base * dbl 0.9 * dbl 0.95 else base * dbl 0.9)
       else (if wasteComposting l then base * dbl 0.95 else base))"
    unfolding calculateLifestyleEmissions_def Let_def d p(1) c(1) e(1) f(1) base_def by simp
  have b9: "dbl 0.8 * dbl 0.9 \<le> base * dbl 0.9"
    using b by (rule mul_dbl_mono) simp_all
  have b95: "dbl 0.8 * dbl 0.95 \<le> base * dbl 0.95"
    using b by (rule mul_dbl_mono) simp_all
  have b995: "dbl 0.8 * dbl 0.9 * dbl 0.95 \<le> base * dbl 0.9 * dbl 0.95"
    using b9 by (rule mul_dbl_mono) simp_all
  show ?thesis
    unfolding r
    using le_trans_js [OF flag_bounds(1) b] le_trans_js [OF flag_bounds(2) b9]
      le_trans_js [OF flag_bounds(3) b95] le_trans_js [OF flag_bounds(4) b995]
    by simp
qed

lemma total_positive:
  assumes "Num 0 \<le> calculateTransportEmissions (transport (formData s))"
    and "Num 0 \<le> calculateEnergyEmissions (energy (formData s))"
    and "dbl 0.684 \<le> calculateLifestyleEmissions (lifestyle (formData s))"
  shows "\<exists>r. carbonFootprint (calculateFinalFootprint s) = Some r \<and> Num 0 < total r"
proof -
  have "Num 0 + Num 0 \<le> calculateTransportEmissions (transport (formData s))
      + calculateEnergyEmissions (energy (formData s))"
    using assms(1,2) by (rule add_mono_js) simp_all
  then have "Num 0 + Num 0 + dbl 0.684 \<le> calculateTransportEmissions (transport (formData s))
      + calculateEnergyEmissions (energy (formData s))
      + calculateLifestyleEmissions (lifestyle (formData s))"
    using assms(3) by (rule add_mono_js) (simp_all add: round64_eval)
  then have "dbl 0.684 \<le> calculateTransportEmissions (transport (formData s))
      + calculateEnergyEmissions (energy (formData s))
      + calculateLifestyleEmissions (lifestyle (formData s))"
    by (simp only: flag_bounds(7))
  from less_le_trans_js [OF flag_bounds(6) this] show ?thesis
    unfolding calculateFinalFootprint_def Let_def by simp
qed

lemma inherited_diet_key_NaN:
  "calculateLifestyleEmissions ((lifestyle initialFormData)\<lparr>dietType := ''constructor''\<rparr>) = NaN"
  by (simp add: calculateLifestyleEmissions_def initialFormData_def diet_constructor or_else_def)

text \<open>
  Claim C10, as the code has it. For every input whose lifestyle part has a local food
  percentage in [0, 100], shopping scores that are not negative and a diet type that names no
  property inherited from \<^verbatim>\<open>Object.prototype\<close>, the lifestyle calculator returns at
  least 0.684 tonnes, the value of 0.8 * 0.9 * 0.95 in binary64 arithmetic, and so a positive
  number; a diet type outside the table gives the omnivore result; and the total is positive
  when the transport and energy outputs are not negative.
\<close>

theorem C10_lifestyle_lower_bound:
  assumes k: "dietType (lifestyle (formData s)) \<notin> set Object_prototype_properties"
    and p: "localFoodPercentage (lifestyle (formData s)) = Num p" "0 \<le> p" "p \<le> 100"
    and c: "clothes (shoppingHabits (lifestyle (formData s))) = Num c" "0 \<le> c"
    and e: "electronics (shoppingHabits (lifestyle (formData s))) = Num e" "0 \<le> e"
    and f: "furniture (shoppingHabits (lifestyle (formData s))) = Num f" "0 \<le> f"
  shows "dbl 0.684 \<le> calculateLifestyleEmissions (lifestyle (formData s))
     \<and> dbl 0.8 * dbl 0.9 * dbl 0.95 = dbl 0.684
     \<and> Num 0 < calculateLifestyleEmissions (lifestyle (formData s))
     \<and> (map_of EMISSIONS_FACTORS_diet (dietType (lifestyle (formData s))) = None \<longrightarrow>
          calculateLifestyleEmissions (lifestyle (formData s))
          = calculateLifestyleEmissions ((lifestyle (formData s))\<lparr>dietType := ''omnivore''\<rparr>))
     \<and> (Num 0 \<le> calculateTransportEmissions (transport (formData s))
          \<and> Num 0 \<le> calculateEnergyEmissions (energy (formData s)) \<longrightarrow>
          (\<exists>r. carbonFootprint (calculateFinalFootprint s) = Some r \<and> Num 0 < total r))"
proof -
  have b: "dbl 0.684 \<le> calculateLifestyleEmissions (lifestyle (formData s))"
    using k p c e f by (rule lifestyle_lower_bound)
  have pos: "Num 0 < calculateLifestyleEmissions (lifestyle (formData s))"
    using flag_bounds(6) b by (rule less_le_trans_js)
  have omni: "map_of EMISSIONS_FACTORS_diet (dietType (lifestyle (formData s))) = None \<longrightarrow>
          calculateLifestyleEmissions (lifestyle (formData s))
          = calculateLifestyleEmissions ((lifestyle (formData s))\<lparr>dietType := ''omnivore''\<rparr>)"
  proof
    assume "map_of EMISSIONS_FACTORS_diet (dietType (lifestyle (formData s))) = None"
    from unknown_diet_is_omnivore [OF k this]
    show "calculateLifestyleEmissions (lifestyle (formData s))
          = calculateLifestyleEmissions ((lifestyle (formData s))\<lparr>dietType := ''omnivore''\<rparr>)"
      by (simp add: calculateLifestyleEmissions_def Let_def)
  qed
  have tot: "Num 0 \<le> calculateTransportEmissions (transport (formData s))
          \<and> Num 0 \<le> calculateEnergyEmissions (energy (formData s)) \<longrightarrow>
          (\<exists>r. carbonFootprint (calculateFinalFootprint s) = Some r \<and> Num 0 < total r)"
    using total_positive [OF _ _ b] by blast
  from b pos omni tot flag_bounds(5) show ?thesis
    by blast
qed

text \<open>The theorem at the initial form, whose diet type is the empty string.\<close>

theorem C10_lifestyle_lower_bound_witness:
  "dietType (lifestyle (formData initialAppState)) \<notin> set Object_prototype_properties
   \<and> localFoodPercentage (lifestyle (formData initialAppState)) = Num 0
   \<and> clothes (shoppingHabits (lifestyle (formData initialAppState))) = Num 50
   \<and> electronics (shoppingHabits (lifestyle (formData initialAppState))) = Num 50
   \<and> furniture (shoppingHabits (lifestyle (formData initialAppState))) = Num 50
   \<and> map_of EMISSIONS_FACTORS_diet (dietType (lifestyle (formData initialAppState))) = None
   \<and> dbl 0.684 \<le> calculateLifestyleEmissions (lifestyle (formData initialAppState))
   \<and> Num 0 < calculateLifestyleEmissions (lifestyle (formData initialAppState))
   \<and> calculateLifestyleEmissions (lifestyle (formData initialAppState))
       = calculateLifestyleEmissions
           ((lifestyle (formData initialAppState))\<lparr>dietType := ''omnivore''\<rparr>)
   \<and> (\<exists>r. carbonFootprint (calculateFinalFootprint initialAppState) = Some r
          \<and> Num 0 < total r)"
proof -
  have h: "dietType (lifestyle (formData initialAppState)) \<notin> set Object_prototype_properties"
    "localFoodPercentage (lifestyle (formData initialAppState)) = Num 0"
    "clothes (shoppingHabits (lifestyle (formData initialAppState))) = Num 50"
    "electronics (shoppingHabits (lifestyle (formData initialAppState))) = Num 50"
    "furniture (shoppingHabits (lifestyle (formData initialAppState))) = Num 50"
    "map_of EMISSIONS_FACTORS_diet (dietType (lifestyle (formData initialAppState))) = None"
    by (simp_all add: initialAppState_def initialFormData_def Object_prototype_properties_def
        EMISSIONS_FACTORS_diet_def)
  have t: "Num 0 \<le> calculateTransportEmissions (transport (formData initialAppState))"
    by (subst transport_zero) (simp_all add: initialAppState_def initialFormData_def)
  have e: "Num 0 \<le> calculateEnergyEmissions (energy (formData initialAppState))"
    by (subst energy_zero) (simp_all add: initialAppState_def initialFormData_def zero_opt_def)
  have "dbl 0.684 \<le> calculateLifestyleEmissions (lifestyle (formData initialAppState))
     \<and> dbl 0.8 * dbl 0.9 * dbl 0.95 = dbl 0.684
     \<and> Num 0 < calculateLifestyleEmissions (lifestyle (formData initialAppState))
     \<and> (map_of EMISSIONS_FACTORS_diet (dietType (lifestyle (formData initialAppState))) = None
          \<longrightarrow>
          calculateLifestyleEmissions (lifestyle (formData initialAppState))
          = calculateLifestyleEmissions
              ((lifestyle (formData initialAppState))\<lparr>dietType := ''omnivore''\<rparr>))
     \<and> (Num 0 \<le> calculateTransportEmissions (transport (formData initialAppState))
          \<and> Num 0 \<le> calculateEnergyEmissions (energy (formData initialAppState)) \<longrightarrow>
          (\<exists>r. carbonFootprint (calculateFinalFootprint initialAppState) = Some r
             \<and> Num 0 < total r))"
    by (rule C10_lifestyle_lower_bound [OF h(1) h(2) _ _ h(3) _ h(4) _ h(5)]) simp_all
  with h t e show ?thesis
    by blast
qed

text \<open>
  Claim C10 as stated fails: the initial form with -10 long-haul flights has a lifestyle part
  inside the stated ranges and a lifestyle output of 2.725, but a total of -15.275, which is
  not positive.
\<close>

theorem C10_lifestyle_lower_bound_counterexample:
  "dietType (lifestyle (formData negativeFlights)) = ''''
   \<and> localFoodPercentage (lifestyle (formData negativeFlights)) = Num 0
   \<and> shoppingHabits (lifestyle (formData negativeFlights))
       = \<lparr>clothes = Num 50, electronics = Num 50, furniture = Num 50\<rparr>
   \<and> calculateLifestyleEmissions (lifestyle (formData negativeFlights)) = dbl 2.725
   \<and> map_option total (carbonFootprint (calculateFinalFootprint negativeFlights))
       = Some (dbl (- 15.275))
   \<and> dbl (- 15.275) < Num 0"
proof -
  have fd: "formData negativeFlights = initialFormData
        \<lparr>transport := (transport initialFormData)\<lparr>flightsLongHaul := Num (- 10)\<rparr>\<rparr>"
    by (simp add: negativeFlights_def)
  have t: "calculateTransportEmissions (transport (formData negativeFlights)) = Num (- 18)"
    unfolding fd
    by (simp add: calculateTransportEmissions_def initialFormData_def
        EMISSIONS_FACTORS_flights_def round64_eval)
  have e: "calculateEnergyEmissions (energy (formData negativeFlights)) = Num 0"
    unfolding fd
    by (rule energy_zero) (simp_all add: initialFormData_def zero_opt_def)
  have l: "calculateLifestyleEmissions (lifestyle (formData negativeFlights)) = dbl 2.725"
    unfolding fd
    by (simp add: calculateLifestyleEmissions_def initialFormData_def diet_empty diet_omnivore
        or_else_def round64_eval)
  have v: "Num (- 18) + Num 0 + dbl 2.725 = dbl (- 15.275)" "dbl (- 15.275) < Num 0"
    by (simp_all add: round64_eval)
  show ?thesis
    unfolding calculateFinalFootprint_def Let_def t e l
    using v by (simp add: fd initialFormData_def)
qed

end
